theory Spec2Isabelle
  imports Main "HOL-Library.Word" "HOL-Library.AList"
begin

section \<open>Python values of JSON shape and Python dictionaries\<close>

text \<open>
  The integration moves JSON documents around: API replies, entity attributes, scenario
  outcomes, service-call payloads. A value is modelled as Python holds it: what
  \<^verbatim>\<open>json.loads\<close> returns (\<^verbatim>\<open>None\<close>, booleans, integers, strings, lists and dicts with
  string keys), and the tuples that the host keeps in entity attributes such as
  \<^verbatim>\<open>rgb_color\<close>. A list and a tuple with the same elements are different values, as
  \<^verbatim>\<open>[1, 2] == (1, 2)\<close> is false. A Python \<^verbatim>\<open>dict\<close> with string keys is an association
  list in insertion order (a key occurs once: \<^const>\<open>AList.update\<close> replaces in place or
  appends, as item assignment on a \<^verbatim>\<open>dict\<close> does).
\<close>

datatype jval =
    JNull
  | JBool bool
  | JInt int
  | JStr string
  | JList "jval list"
  | JTuple "jval list"
  | JObj "(string \<times> jval) list"

type_synonym pydict = "(string \<times> jval) list"

datatype error =
    ApiError
  | TypeError
  | AttributeError
  | KeyError
  | ValueError
  | UnboundLocalError
  | ServiceError

text \<open>\<^verbatim>\<open>d.get(k)\<close>: the value, or \<^verbatim>\<open>None\<close> when the key is absent.\<close>

definition py_get :: "pydict \<Rightarrow> string \<Rightarrow> jval" where
  "py_get d k = (case map_of d k of None \<Rightarrow> JNull | Some v \<Rightarrow> v)"

text \<open>\<^verbatim>\<open>d.get(k, default)\<close>.\<close>

definition py_get_default :: "pydict \<Rightarrow> string \<Rightarrow> jval \<Rightarrow> jval" where
  "py_get_default d k dflt = (case map_of d k of None \<Rightarrow> dflt | Some v \<Rightarrow> v)"

text \<open>\<^verbatim>\<open>d[k] = v\<close>.\<close>

definition py_set :: "pydict \<Rightarrow> string \<Rightarrow> jval \<Rightarrow> pydict" where
  "py_set d k v = AList.update k v d"

text \<open>Python truthiness of a value (\<^verbatim>\<open>if x:\<close>, \<^verbatim>\<open>not x\<close>).\<close>

fun truthy :: "jval \<Rightarrow> bool" where
  "truthy JNull = False"
| "truthy (JBool b) = b"
| "truthy (JInt n) = (n \<noteq> 0)"
| "truthy (JStr s) = (s \<noteq> [])"
| "truthy (JList xs) = (xs \<noteq> [])"
| "truthy (JTuple xs) = (xs \<noteq> [])"
| "truthy (JObj d) = (d \<noteq> [])"

text \<open>\<^verbatim>\<open>needle in haystack\<close> for two Python strings: the substring test.\<close>

definition py_substring :: "string \<Rightarrow> string \<Rightarrow> bool" where
  "py_substring k s = list_ex (\<lambda>i. take (length k) (drop i s) = k) [0..<Suc (length s)]"

text \<open>
  \<^verbatim>\<open>k in x\<close> for a string \<^verbatim>\<open>k\<close>: key membership on a dict, element membership on a list
  or a tuple, substring test on a string; \<^verbatim>\<open>TypeError\<close> on \<^verbatim>\<open>None\<close>, booleans and
  numbers.
\<close>

fun py_contains :: "string \<Rightarrow> jval \<Rightarrow> error + bool" where
  "py_contains k (JObj d) = Inr (map_of d k \<noteq> None)"
| "py_contains k (JList xs) = Inr (JStr k \<in> set xs)"
| "py_contains k (JTuple xs) = Inr (JStr k \<in> set xs)"
| "py_contains k (JStr s) = Inr (py_substring k s)"
| "py_contains k JNull = Inl TypeError"
| "py_contains k (JBool b) = Inl TypeError"
| "py_contains k (JInt n) = Inl TypeError"

text \<open>
  \<^verbatim>\<open>x[k]\<close> for a string \<^verbatim>\<open>k\<close>: the value on a dict (\<^verbatim>\<open>KeyError\<close> when absent),
  \<^verbatim>\<open>TypeError\<close> on everything else.
\<close>

fun py_index :: "jval \<Rightarrow> string \<Rightarrow> error + jval" where
  "py_index (JObj d) k = (case map_of d k of None \<Rightarrow> Inl KeyError | Some v \<Rightarrow> Inr v)"
| "py_index x k = Inl TypeError"

text \<open>
  \<^verbatim>\<open>for x in v\<close>: the elements of a list or a tuple, the keys of a dict, the characters
  of a string; \<^verbatim>\<open>TypeError\<close> on a value that is not iterable.
\<close>

fun py_iter :: "jval \<Rightarrow> error + jval list" where
  "py_iter (JList xs) = Inr xs"
| "py_iter (JTuple xs) = Inr xs"
| "py_iter (JObj d) = Inr (map (\<lambda>(k, v). JStr k) d)"
| "py_iter (JStr s) = Inr (map (\<lambda>c. JStr [c]) s)"
| "py_iter JNull = Inl TypeError"
| "py_iter (JBool b) = Inl TypeError"
| "py_iter (JInt n) = Inl TypeError"

text \<open>
  The JSON document that \<^verbatim>\<open>json.dumps\<close> writes for a value, which is also the value that
  \<^verbatim>\<open>json.loads\<close> builds from that document: a tuple is written as an array and comes
  back as a list; everything else keeps its shape.
\<close>

primrec json_document :: "jval \<Rightarrow> jval" where
  "json_document JNull = JNull"
| "json_document (JBool b) = JBool b"
| "json_document (JInt n) = JInt n"
| "json_document (JStr s) = JStr s"
| "json_document (JList xs) = JList (map json_document xs)"
| "json_document (JTuple xs) = JList (map json_document xs)"
| "json_document (JObj d) = JObj (map (map_prod id json_document) d)"

section \<open>Tracked entity state and the attribute allow-list\<close>

text \<open>
  The host's state object of an entity: its state string and its attribute mapping
  (string keys).
\<close>

record ha_state =
  state :: string
  attributes :: pydict

text \<open>
  \<^verbatim>\<open>_async_update_remote_state\<close>: the set \<^verbatim>\<open>ALLOWED_KEYS\<close> and the dict comprehension
  \<^verbatim>\<open>{str(k): v for k, v in state.attributes.items() if k in ALLOWED_KEYS and k is not None}\<close>.
  The keys are strings, so \<^verbatim>\<open>str(k)\<close> returns the key and \<^verbatim>\<open>k is not None\<close> holds.
\<close>

definition ALLOWED_KEYS :: "string set" where
  "ALLOWED_KEYS = {''brightness'', ''color_temp'', ''rgb_color'', ''xy_color'',
     ''current_position'', ''current_temperature'', ''temperature'',
     ''hvac_mode'', ''preset_mode''}"

definition safe_attributes_update :: "ha_state \<Rightarrow> pydict" where
  "safe_attributes_update st = filter (\<lambda>(k, v). k \<in> ALLOWED_KEYS) (attributes st)"

definition entities_data_update :: "string \<Rightarrow> ha_state \<Rightarrow> jval" where
  "entities_data_update entity_id st =
     JList [JObj [(''entity_id'', JStr entity_id),
                  (''state'', JStr (state st)),
                  (''attributes'', JObj (safe_attributes_update st))]]"

text \<open>
  \<^verbatim>\<open>_send_bulk_update\<close>: the comprehension tests membership in a list literal, and the
  loop keeps the entities the host has a state for.
\<close>

definition safe_attributes_bulk :: "ha_state \<Rightarrow> pydict" where
  "safe_attributes_bulk st =
     filter (\<lambda>(k, v). k \<in> set [''brightness'', ''color_temp'', ''rgb_color'', ''xy_color'',
                                ''current_position'', ''current_temperature'', ''temperature'',
                                ''hvac_mode'', ''preset_mode'']) (attributes st)"

definition entity_data_bulk :: "string \<Rightarrow> ha_state \<Rightarrow> jval" where
  "entity_data_bulk entity_id st =
     JObj [(''entity_id'', JStr entity_id),
           (''state'', JStr (state st)),
           (''attributes'', JObj (safe_attributes_bulk st))]"

fun entities_data_bulk :: "(string \<Rightarrow> ha_state option) \<Rightarrow> string list \<Rightarrow> jval list" where
  "entities_data_bulk states [] = []"
| "entities_data_bulk states (entity_id # ids) =
     (case states entity_id of
        None \<Rightarrow> entities_data_bulk states ids
      | Some st \<Rightarrow> entity_data_bulk entity_id st # entities_data_bulk states ids)"


section \<open>Scenario outcome dispatcher\<close>

text \<open>
  \<^verbatim>\<open>_handle_triggered_scenarios\<close>: the two nested loops over the scenarios and their
  outcomes. A scenario and an outcome are whatever the decrypted document holds at that
  place; the source reads both with \<^verbatim>\<open>.get\<close>, which only a dict has.

  A platform service call \<^verbatim>\<open>hass.services.async_call(domain, service, data, blocking=True)\<close>
  is recorded in the order of invocation; the host decides whether it raises.
\<close>

record service_call =
  call_domain :: string
  call_service :: string
  call_data :: pydict

text \<open>
  The dispatcher's state: the binding of the local variable \<^verbatim>\<open>service\<close> (a Python local
  lives for the whole function call, so a binding made for one outcome is still there for
  the next one; \<^const>\<open>None\<close> is "not yet bound"), the service calls invoked so far, and
  the log line that ends the loop body of each outcome: the warning before \<^verbatim>\<open>continue\<close>,
  the error of the \<^verbatim>\<open>except\<close> clause, or the closing info line.
\<close>

datatype outcome_log =
    Invalid_outcome
  | Error_executing error
  | Successfully_updated

record dispatch_state =
  service :: "string option"
  calls :: "service_call list"
  logged :: "outcome_log list"

definition async_call ::
  "(service_call \<Rightarrow> bool) \<Rightarrow> service_call \<Rightarrow> dispatch_state \<Rightarrow> (error + unit) \<times> dispatch_state" where
  "async_call raises c s =
     (let s' = s\<lparr>calls := calls s @ [c]\<rparr>
      in if raises c then (Inl ServiceError, s') else (Inr (), s'))"

text \<open>
  \<^verbatim>\<open>if k in attributes: service_data[k] = attributes[k]\<close>.
\<close>

definition copy_attr :: "string \<Rightarrow> jval \<Rightarrow> pydict \<Rightarrow> error + pydict" where
  "copy_attr k attrs service_data =
     (case py_contains k attrs of
        Inl e \<Rightarrow> Inl e
      | Inr False \<Rightarrow> Inr service_data
      | Inr True \<Rightarrow>
          (case py_index attrs k of
             Inl e \<Rightarrow> Inl e
           | Inr v \<Rightarrow> Inr (py_set service_data k v)))"

fun copy_attrs :: "string list \<Rightarrow> jval \<Rightarrow> pydict \<Rightarrow> error + pydict" where
  "copy_attrs [] attrs service_data = Inr service_data"
| "copy_attrs (k # ks) attrs service_data =
     (case copy_attr k attrs service_data of
        Inl e \<Rightarrow> Inl e
      | Inr sd \<Rightarrow> copy_attrs ks attrs sd)"

text \<open>
  The tail of the loop body, after the domain table: the debug log reads \<^verbatim>\<open>service\<close>
  (\<^verbatim>\<open>UnboundLocalError\<close> when no branch of this or an earlier outcome has bound it), then
  the service is called.
\<close>

definition call_resolved ::
  "(service_call \<Rightarrow> bool) \<Rightarrow> string \<Rightarrow> pydict \<Rightarrow> dispatch_state \<Rightarrow> (error + unit) \<times> dispatch_state" where
  "call_resolved raises domain service_data s =
     (case service s of
        None \<Rightarrow> (Inl UnboundLocalError, s)
      | Some sv \<Rightarrow>
          async_call raises \<lparr>call_domain = domain, call_service = sv, call_data = service_data\<rparr> s)"

text \<open>
  The domain table: one branch per \<^verbatim>\<open>if\<close>/\<^verbatim>\<open>elif\<close> of the source, in its order.
  Each branch returns the service data and the state (with \<^verbatim>\<open>service\<close> rebound where
  the branch assigns it), or the exception it raised and the state at that moment.
\<close>

definition branch_light ::
  "string \<Rightarrow> jval \<Rightarrow> jval \<Rightarrow> dispatch_state \<Rightarrow> (error + pydict) \<times> dispatch_state" where
  "branch_light entity_id new_state attrs s =
     (if new_state = JStr ''on''
      then (copy_attrs [''brightness'', ''color_temp'', ''rgb_color'', ''xy_color''] attrs
              [(''entity_id'', JStr entity_id)],
            s\<lparr>service := Some ''turn_on''\<rparr>)
      else (Inr [(''entity_id'', JStr entity_id)], s\<lparr>service := Some ''turn_off''\<rparr>))"

definition branch_switch ::
  "string \<Rightarrow> jval \<Rightarrow> dispatch_state \<Rightarrow> (error + pydict) \<times> dispatch_state" where
  "branch_switch entity_id new_state s =
     (Inr [(''entity_id'', JStr entity_id)],
      s\<lparr>service := Some (if new_state = JStr ''on'' then ''turn_on'' else ''turn_off'')\<rparr>)"

definition branch_alarm ::
  "string \<Rightarrow> jval \<Rightarrow> jval \<Rightarrow> dispatch_state \<Rightarrow> (error + pydict) \<times> dispatch_state" where
  "branch_alarm entity_id new_state attrs s =
     (case new_state of
        JStr st \<Rightarrow>
          (if st \<in> set [''armed_home'', ''armed_away'', ''armed_night'', ''disarmed'']
           then (copy_attrs [''code''] attrs [(''entity_id'', JStr entity_id)],
                 s\<lparr>service := Some st\<rparr>)
           else (Inr [(''entity_id'', JStr entity_id)], s))
      | _ \<Rightarrow> (Inr [(''entity_id'', JStr entity_id)], s))"

definition branch_cover ::
  "string \<Rightarrow> jval \<Rightarrow> jval \<Rightarrow> dispatch_state \<Rightarrow> (error + pydict) \<times> dispatch_state" where
  "branch_cover entity_id new_state attrs s =
     (let s1 = (if new_state = JStr ''open'' then s\<lparr>service := Some ''open_cover''\<rparr>
                else if new_state = JStr ''closed'' then s\<lparr>service := Some ''close_cover''\<rparr>
                else if new_state = JStr ''stop'' then s\<lparr>service := Some ''stop_cover''\<rparr>
                else s)
      in case py_contains ''position'' attrs of
           Inl e \<Rightarrow> (Inl e, s1)
         | Inr False \<Rightarrow> (Inr [(''entity_id'', JStr entity_id)], s1)
         | Inr True \<Rightarrow>
             (case py_index attrs ''position'' of
                Inl e \<Rightarrow> (Inl e, s1\<lparr>service := Some ''set_cover_position''\<rparr>)
              | Inr v \<Rightarrow>
                  (Inr (py_set [(''entity_id'', JStr entity_id)] ''position'' v),
                   s1\<lparr>service := Some ''set_cover_position''\<rparr>)))"

definition branch_climate ::
  "(service_call \<Rightarrow> bool) \<Rightarrow> string \<Rightarrow> string \<Rightarrow> jval \<Rightarrow> jval \<Rightarrow> dispatch_state
     \<Rightarrow> (error + pydict) \<times> dispatch_state" where
  "branch_climate raises domain entity_id new_state attrs s =
     (let hvac = new_state \<in> set [JStr ''heat'', JStr ''cool'', JStr ''auto'', JStr ''off''];
          s1 = (if hvac then s\<lparr>service := Some ''set_hvac_mode''\<rparr> else s);
          service_data = (if hvac then py_set [(''entity_id'', JStr entity_id)] ''hvac_mode'' new_state
                          else [(''entity_id'', JStr entity_id)])
      in case py_contains ''temperature'' attrs of
           Inl e \<Rightarrow> (Inl e, s1)
         | Inr False \<Rightarrow> (Inr service_data, s1)
         | Inr True \<Rightarrow>
             (case py_index attrs ''temperature'' of
                Inl e \<Rightarrow> (Inl e, s1)
              | Inr t \<Rightarrow>
                  (case async_call raises
                          \<lparr>call_domain = domain, call_service = ''set_temperature'',
                           call_data = [(''entity_id'', JStr entity_id), (''temperature'', t)]\<rparr> s1 of
                     (Inl e, s2) \<Rightarrow> (Inl e, s2)
                   | (Inr u, s2) \<Rightarrow> (Inr service_data, s2))))"

definition branch_number ::
  "string \<Rightarrow> jval \<Rightarrow> dispatch_state \<Rightarrow> (error + pydict) \<times> dispatch_state" where
  "branch_number entity_id new_state s =
     (Inr (py_set [(''entity_id'', JStr entity_id)] ''value'' new_state),
      s\<lparr>service := Some ''set_value''\<rparr>)"

definition branch_other ::
  "string \<Rightarrow> jval \<Rightarrow> dispatch_state \<Rightarrow> (error + pydict) \<times> dispatch_state" where
  "branch_other entity_id new_state s =
     (Inr [(''entity_id'', JStr entity_id)],
      s\<lparr>service := Some (if new_state = JStr ''on'' then ''turn_on'' else ''turn_off'')\<rparr>)"

definition resolve ::
  "(service_call \<Rightarrow> bool) \<Rightarrow> string \<Rightarrow> string \<Rightarrow> jval \<Rightarrow> jval \<Rightarrow> dispatch_state
     \<Rightarrow> (error + pydict) \<times> dispatch_state" where
  "resolve raises domain entity_id new_state attrs s =
     (if domain = ''light'' then branch_light entity_id new_state attrs s
      else if domain = ''switch'' then branch_switch entity_id new_state s
      else if domain = ''alarm_control_panel'' then branch_alarm entity_id new_state attrs s
      else if domain = ''cover'' then branch_cover entity_id new_state attrs s
      else if domain = ''climate'' then branch_climate raises domain entity_id new_state attrs s
      else if domain = ''number'' then branch_number entity_id new_state s
      else branch_other entity_id new_state s)"

text \<open>\<^verbatim>\<open>entity_id.split('.')[0]\<close>: the text before the first dot, all of it without one.\<close>

definition domain_of :: "string \<Rightarrow> string" where
  "domain_of entity_id = takeWhile (\<lambda>c. c \<noteq> CHR ''.'') entity_id"

text \<open>
  The body of the \<^verbatim>\<open>try\<close> for one outcome. \<^const>\<open>None\<close> is the \<^verbatim>\<open>continue\<close> of the
  validity check; \<open>Some (Inl e)\<close> is an exception on its way to the \<^verbatim>\<open>except\<close> clause.
  An \<^verbatim>\<open>entity_id\<close> that is truthy but not a string has no \<^verbatim>\<open>split\<close>.
\<close>

definition try_outcome ::
  "(service_call \<Rightarrow> bool) \<Rightarrow> pydict \<Rightarrow> dispatch_state \<Rightarrow> (error + unit) option \<times> dispatch_state" where
  "try_outcome raises outcome s =
     (let entity_id = py_get outcome ''entity_id'';
          new_state = py_get outcome ''state'';
          attrs = py_get_default outcome ''attributes'' (JObj [])
      in if \<not> truthy entity_id \<or> new_state = JNull then (None, s)
         else (case entity_id of
                 JStr e \<Rightarrow>
                   (case resolve raises (domain_of e) e new_state attrs s of
                      (Inl err, s1) \<Rightarrow> (Some (Inl err), s1)
                    | (Inr service_data, s1) \<Rightarrow>
                        (case call_resolved raises (domain_of e) service_data s1 of
                           (r, s2) \<Rightarrow> (Some r, s2)))
               | _ \<Rightarrow> (Some (Inl AttributeError), s)))"

text \<open>
  One turn of the inner loop on an outcome that is a dict: the \<^verbatim>\<open>try\<close> body, and the
  \<^verbatim>\<open>except Exception\<close> clause that logs and falls through to the next outcome.
\<close>

definition handle_object_outcome ::
  "(service_call \<Rightarrow> bool) \<Rightarrow> pydict \<Rightarrow> dispatch_state \<Rightarrow> dispatch_state" where
  "handle_object_outcome raises outcome s =
     (case try_outcome raises outcome s of
        (None, s1) \<Rightarrow> s1\<lparr>logged := logged s1 @ [Invalid_outcome]\<rparr>
      | (Some (Inl err), s1) \<Rightarrow> s1\<lparr>logged := logged s1 @ [Error_executing err]\<rparr>
      | (Some (Inr u), s1) \<Rightarrow> s1\<lparr>logged := logged s1 @ [Successfully_updated]\<rparr>)"

text \<open>
  One turn of the inner loop on any outcome. On a value that is not a dict the first
  statement of the \<^verbatim>\<open>try\<close>, \<^verbatim>\<open>outcome.get("entity_id")\<close>, raises
  \<^verbatim>\<open>AttributeError\<close>; the \<^verbatim>\<open>except\<close> clause evaluates \<^verbatim>\<open>outcome.get("entity_id")\<close>
  again as an argument of its log call, before anything is logged, and this second
  \<^verbatim>\<open>AttributeError\<close> is raised inside the handler: it leaves the loops and the function.
  \<open>Inl\<close> is such an exception on its way out.
\<close>

definition handle_outcome ::
  "(service_call \<Rightarrow> bool) \<Rightarrow> jval \<Rightarrow> dispatch_state \<Rightarrow> (error + unit) \<times> dispatch_state" where
  "handle_outcome raises outcome s =
     (case outcome of
        JObj d \<Rightarrow> (Inr (), handle_object_outcome raises d s)
      | _ \<Rightarrow> (Inl AttributeError, s))"

fun handle_outcomes ::
  "(service_call \<Rightarrow> bool) \<Rightarrow> jval list \<Rightarrow> dispatch_state \<Rightarrow> (error + unit) \<times> dispatch_state" where
  "handle_outcomes raises [] s = (Inr (), s)"
| "handle_outcomes raises (outcome # rest) s =
     (case handle_outcome raises outcome s of
        (Inl e, s1) \<Rightarrow> (Inl e, s1)
      | (Inr u, s1) \<Rightarrow> handle_outcomes raises rest s1)"

text \<open>
  One turn of the outer loop. \<^verbatim>\<open>scenario.get("scenario_name")\<close> and
  \<^verbatim>\<open>scenario["outcomes"]\<close> stand outside the \<^verbatim>\<open>try\<close>: an \<^verbatim>\<open>AttributeError\<close> on a
  scenario that is not a dict, a \<^verbatim>\<open>KeyError\<close> on one without outcomes and a
  \<^verbatim>\<open>TypeError\<close> on outcomes that cannot be iterated leave the function.
\<close>

definition handle_scenario ::
  "(service_call \<Rightarrow> bool) \<Rightarrow> jval \<Rightarrow> dispatch_state \<Rightarrow> (error + unit) \<times> dispatch_state" where
  "handle_scenario raises scenario s =
     (case scenario of
        JObj sc \<Rightarrow>
          (case map_of sc ''outcomes'' of
             None \<Rightarrow> (Inl KeyError, s)
           | Some v \<Rightarrow>
               (case py_iter v of
                  Inl e \<Rightarrow> (Inl e, s)
                | Inr outcomes \<Rightarrow> handle_outcomes raises outcomes s))
      | _ \<Rightarrow> (Inl AttributeError, s))"

fun handle_scenarios ::
  "(service_call \<Rightarrow> bool) \<Rightarrow> jval list \<Rightarrow> dispatch_state \<Rightarrow> (error + unit) \<times> dispatch_state" where
  "handle_scenarios raises [] s = (Inr (), s)"
| "handle_scenarios raises (scenario # rest) s =
     (case handle_scenario raises scenario s of
        (Inl e, s1) \<Rightarrow> (Inl e, s1)
      | (Inr u, s1) \<Rightarrow> handle_scenarios raises rest s1)"

text \<open>The state at the entry of \<^verbatim>\<open>_handle_triggered_scenarios\<close>.\<close>

definition dispatch_init :: dispatch_state where
  "dispatch_init = \<lparr>service = None, calls = [], logged = []\<rparr>"

section \<open>Directive poll loop\<close>

text \<open>
  The coordinator's data is the reply of \<^verbatim>\<open>GET /directive\<close>: a dict whose key
  \<^verbatim>\<open>directives\<close> holds the shared directive collection, a list of directive dicts.
  \<open>directives = None\<close> is a dict without that key; \<^verbatim>\<open>self.data\<close> as a whole is
  \<^const>\<open>None\<close> until the first refresh has succeeded.
\<close>

record coord_data =
  directives :: "pydict list option"
  other_keys :: pydict

text \<open>
  What the loop can observe of the world: the reply and the duration of the k-th stage
  fetch, by how much the k-th \<^verbatim>\<open>asyncio.sleep(10)\<close> oversleeps, the reply and the duration
  of the full-directive fetch, and whether a sensor is registered. Time is the event
  loop's monotonic clock in milliseconds. \<open>Inl\<close> is a request that raises (a network or
  parse error, a status other than 200).
\<close>

record world =
  stage_reply :: "nat \<Rightarrow> error + pydict"
  stage_cost :: "nat \<Rightarrow> nat"
  sleep_over :: "nat \<Rightarrow> nat"
  directive_reply :: "error + pydict"
  directive_cost :: nat
  sensor :: bool

datatype poll_event =
    Stage_fetch string
  | Directive_fetch string
  | Set_updated_data coord_data
  | Sensor_set string jval
  | Sleep nat

record poll_state =
  now :: nat
  data :: "coord_data option"
  fetched :: nat
  trace :: "poll_event list"

text \<open>
  \<^verbatim>\<open>self.async_set_updated_data(new_data)\<close>: the coordinator's data is replaced and every
  listener is notified with the new data as a whole.
\<close>

definition async_set_updated_data :: "coord_data \<Rightarrow> poll_state \<Rightarrow> poll_state" where
  "async_set_updated_data new_data s =
     s\<lparr>data := Some new_data, trace := trace s @ [Set_updated_data new_data]\<rparr>"

text \<open>\<^verbatim>\<open>directive.get("id") == directive_id\<close>.\<close>

definition has_id :: "string \<Rightarrow> pydict \<Rightarrow> bool" where
  "has_id directive_id d = (py_get d ''id'' = JStr directive_id)"

text \<open>
  \<^verbatim>\<open>async_get_directive_stage\<close>: one request; the reply of the k-th request of this poll.
\<close>

definition async_get_directive_stage ::
  "world \<Rightarrow> string \<Rightarrow> poll_state \<Rightarrow> (error + pydict) \<times> poll_state" where
  "async_get_directive_stage w directive_id s =
     (stage_reply w (fetched s),
      s\<lparr>now := now s + stage_cost w (fetched s),
        fetched := Suc (fetched s),
        trace := trace s @ [Stage_fetch directive_id]\<rparr>)"

text \<open>
  \<^verbatim>\<open>async_get_directive\<close>: the full directive record. A reply without a truthy
  \<^verbatim>\<open>directive\<close> returns \<^verbatim>\<open>None\<close>; otherwise the record takes over the messages of the
  collection's entry, replaces that entry at the end of the collection and is returned.
  Item assignment on a value that is not a dict raises. Without coordinator data the
  record goes to the sensor.
\<close>

definition async_get_directive ::
  "world \<Rightarrow> string \<Rightarrow> poll_state \<Rightarrow> (error + jval option) \<times> poll_state" where
  "async_get_directive w directive_id s =
     (let s1 = s\<lparr>now := now s + directive_cost w,
                 trace := trace s @ [Directive_fetch directive_id]\<rparr>
      in case directive_reply w of
           Inl e \<Rightarrow> (Inl e, s1)
         | Inr api_response \<Rightarrow>
             (let directive_data = py_get api_response ''directive''
              in if \<not> truthy directive_data then (Inr None, s1)
                 else (case data s1 of
                         None \<Rightarrow>
                           (Inr (Some directive_data),
                            if sensor w
                            then s1\<lparr>trace := trace s1 @ [Sensor_set directive_id directive_data]\<rparr>
                            else s1)
                       | Some c \<Rightarrow>
                           (case directives c of
                              None \<Rightarrow>
                                (Inr (Some directive_data),
                                 if sensor w
                                 then s1\<lparr>trace := trace s1 @ [Sensor_set directive_id directive_data]\<rparr>
                                 else s1)
                            | Some ds \<Rightarrow>
                                (case directive_data of
                                   JObj dd \<Rightarrow>
                                     (let messages =
                                            (case find (has_id directive_id) ds of
                                               None \<Rightarrow> JList []
                                             | Some d \<Rightarrow> py_get_default d ''messages'' (JList []));
                                          dd' = py_set dd ''messages'' messages;
                                          updated_directives =
                                            filter (\<lambda>d. \<not> has_id directive_id d) ds @ [dd']
                                      in (Inr (Some (JObj dd')),
                                          async_set_updated_data
                                            (c\<lparr>directives := Some updated_directives\<rparr>) s1))
                                 | _ \<Rightarrow> (Inl TypeError, s1))))))"

text \<open>
  Lines 103 to 135: the merge of the stage into the collection, guarded by
  \<^verbatim>\<open>if self.data and "directives" in self.data\<close>. Every entry with the id is copied and
  updated; an entry is synthesized and appended when none has the id; the new data is
  published.
\<close>

text \<open>
  \<^verbatim>\<open>updated_directive = directive.copy()\<close> and the three assignments to it.
\<close>

definition updated_directive :: "pydict \<Rightarrow> pydict \<Rightarrow> pydict" where
  "updated_directive stage_info directive =
     py_set (py_set (py_set directive
       ''creation_stage'' (py_get stage_info ''stage''))
       ''creation_message'' (py_get stage_info ''stage_message''))
       ''status'' (py_get stage_info ''status'')"

definition new_directive :: "string \<Rightarrow> pydict \<Rightarrow> pydict" where
  "new_directive directive_id stage_info =
     [(''id'', JStr directive_id),
      (''creation_stage'', py_get stage_info ''stage''),
      (''creation_message'', py_get stage_info ''stage_message''),
      (''message'', py_get stage_info ''message''),
      (''title'', py_get stage_info ''title''),
      (''status'', JStr ''creating''),
      (''discovery'', JBool False)]"

definition merge_stage :: "string \<Rightarrow> pydict \<Rightarrow> poll_state \<Rightarrow> poll_state" where
  "merge_stage directive_id stage_info s =
     (case data s of
        None \<Rightarrow> s
      | Some c \<Rightarrow>
          (case directives c of
             None \<Rightarrow> s
           | Some original_directives \<Rightarrow>
               (let updated_directives =
                      map (\<lambda>directive.
                            if has_id directive_id directive
                            then updated_directive stage_info directive
                            else directive) original_directives;
                    directive_found = list_ex (has_id directive_id) original_directives
                in async_set_updated_data
                     (c\<lparr>directives :=
                          Some (if directive_found then updated_directives
                                else updated_directives @ [new_directive directive_id stage_info])\<rparr>) s)))"

text \<open>
  The \<^verbatim>\<open>else\<close> of the \<^verbatim>\<open>while\<close>: the first entry with the id, when it is truthy, is
  marked failed in place and the data is published.
\<close>

definition mark_failed :: "pydict \<Rightarrow> pydict" where
  "mark_failed directive_to_update =
     py_set (py_set (py_set directive_to_update
       ''creation_stage'' (JStr ''failed''))
       ''creation_message'' (JStr ''Directive creation timed out after 3 minutes.''))
       ''status'' (JStr ''error'')"

fun mark_first :: "string \<Rightarrow> pydict list \<Rightarrow> pydict list" where
  "mark_first directive_id [] = []"
| "mark_first directive_id (d # ds) =
     (if has_id directive_id d then mark_failed d # ds
      else d # mark_first directive_id ds)"

definition timed_out :: "string \<Rightarrow> poll_state \<Rightarrow> poll_state" where
  "timed_out directive_id s =
     (case data s of
        None \<Rightarrow> s
      | Some c \<Rightarrow>
          (case directives c of
             None \<Rightarrow> s
           | Some ds \<Rightarrow>
               (case find (has_id directive_id) ds of
                  None \<Rightarrow> s
                | Some directive_to_update \<Rightarrow>
                    if directive_to_update \<noteq> []
                    then async_set_updated_data
                           (c\<lparr>directives := Some (mark_first directive_id ds)\<rparr>) s
                    else s)))"

text \<open>What a collection entry reads after the timeout has marked it.\<close>

definition timeout_marked :: "pydict \<Rightarrow> bool" where
  "timeout_marked d =
     (py_get d ''creation_stage'' = JStr ''failed''
      \<and> py_get d ''creation_message'' = JStr ''Directive creation timed out after 3 minutes.''
      \<and> py_get d ''status'' = JStr ''error'')"

text \<open>\<^verbatim>\<open>await asyncio.sleep(10)\<close>: at least ten seconds pass.\<close>

definition sleep10 :: "world \<Rightarrow> poll_state \<Rightarrow> poll_state" where
  "sleep10 w s =
     s\<lparr>now := now s + 10000 + sleep_over w (fetched s - 1), trace := trace s @ [Sleep 10]\<rparr>"

text \<open>
  The \<^verbatim>\<open>while\<close> loop of \<^verbatim>\<open>async_poll_directive\<close>. The result is the returned value
  (\<^const>\<open>None\<close> is Python's \<^verbatim>\<open>None\<close>) or the exception that left the coroutine.
\<close>

function poll_loop ::
  "world \<Rightarrow> string \<Rightarrow> nat \<Rightarrow> poll_state \<Rightarrow> (error + jval option) \<times> poll_state" where
  "poll_loop w directive_id start_time s =
     (if now s - start_time < 380000
      then (case async_get_directive_stage w directive_id s of
              (Inl e, s1) \<Rightarrow> (Inl e, s1)
            | (Inr stage_info, s1) \<Rightarrow>
                if py_get stage_info ''stage'' = JStr ''completed''
                then async_get_directive w directive_id s1
                else if py_get stage_info ''stage'' = JStr ''failed''
                then async_get_directive w directive_id s1
                else poll_loop w directive_id start_time
                       (sleep10 w (merge_stage directive_id stage_info s1)))
      else (Inr None, timed_out directive_id s))"
  by pat_completeness auto

termination poll_loop
  apply (relation "measure (\<lambda>(w, directive_id, start_time, s). start_time + 380000 - now s)")
   apply simp
  apply (auto simp: sleep10_def merge_stage_def async_set_updated_data_def Let_def
                    async_get_directive_stage_def split: option.splits)
  done

declare poll_loop.simps [simp del]

text \<open>The two stages that end the loop.\<close>

definition terminal_stage :: "pydict \<Rightarrow> bool" where
  "terminal_stage stage_info =
     (py_get stage_info ''stage'' = JStr ''completed'' \<or> py_get stage_info ''stage'' = JStr ''failed'')"

text \<open>
  \<^verbatim>\<open>async_poll_directive\<close>: the start time is read from the clock, then the loop runs.
\<close>

definition async_poll_directive ::
  "world \<Rightarrow> string \<Rightarrow> poll_state \<Rightarrow> (error + jval option) \<times> poll_state" where
  "async_poll_directive w directive_id s = poll_loop w directive_id (now s) s"

text \<open>
  One turn of the loop on a stage that is not terminal: the stage fetch, the merge and
  the sleep.
\<close>

definition poll_turn :: "world \<Rightarrow> string \<Rightarrow> pydict \<Rightarrow> poll_state \<Rightarrow> poll_state" where
  "poll_turn w directive_id stage_info s =
     sleep10 w (merge_stage directive_id stage_info (snd (async_get_directive_stage w directive_id s)))"

text \<open>The snapshots that a trace published to the listeners, in order.\<close>

fun snapshots :: "poll_event list \<Rightarrow> coord_data list" where
  "snapshots [] = []"
| "snapshots (Set_updated_data c # tr) = c # snapshots tr"
| "snapshots (e # tr) = snapshots tr"

text \<open>The requests of a trace, counted.\<close>

definition stage_fetches :: "poll_event list \<Rightarrow> nat" where
  "stage_fetches tr = length (filter (\<lambda>e. case e of Stage_fetch i \<Rightarrow> True | _ \<Rightarrow> False) tr)"

definition directive_fetches :: "poll_event list \<Rightarrow> nat" where
  "directive_fetches tr =
     length (filter (\<lambda>e. case e of Directive_fetch i \<Rightarrow> True | _ \<Rightarrow> False) tr)"

section \<open>Encryption helper\<close>

text \<open>
  \<^verbatim>\<open>encrypt_data\<close> and \<^verbatim>\<open>decrypt_data\<close> compose library primitives. The block cipher
  (AES on one 16-byte block under a key), base64 and the JSON codec are parameters; the
  PKCS7 padding and the CBC chaining that the source asks the library for are written
  out. \<^verbatim>\<open>json.dumps(data).encode()\<close> is the text \<^verbatim>\<open>json_dumps\<close> of the document
  \<^const>\<open>json_document\<close> of the data; \<^verbatim>\<open>json_loads\<close> is
  \<^verbatim>\<open>json.loads(bytes.decode('utf-8'))\<close>, the document of a text, with \<^const>\<open>None\<close> for a
  raise.
\<close>

type_synonym byte = "8 word"

record primitives =
  aes_encrypt_block :: "byte list \<Rightarrow> byte list \<Rightarrow> byte list"
  aes_decrypt_block :: "byte list \<Rightarrow> byte list \<Rightarrow> byte list"
  b64encode :: "byte list \<Rightarrow> string"
  b64decode :: "string \<Rightarrow> byte list option"
  json_dumps :: "jval \<Rightarrow> byte list"
  json_loads :: "byte list \<Rightarrow> jval option"

text \<open>\<^verbatim>\<open>padding.PKCS7(128)\<close>: one to sixteen bytes, each holding their number.\<close>

definition pkcs7_pad :: "byte list \<Rightarrow> byte list" where
  "pkcs7_pad bs = (let n = 16 - length bs mod 16 in bs @ replicate n (of_nat n))"

definition pkcs7_unpad :: "byte list \<Rightarrow> error + byte list" where
  "pkcs7_unpad bs =
     (if bs = [] \<or> length bs mod 16 \<noteq> 0 then Inl ValueError
      else (let n = unat (last bs)
            in if n = 0 \<or> 16 < n then Inl ValueError
               else if drop (length bs - n) bs \<noteq> replicate n (last bs) then Inl ValueError
               else Inr (take (length bs - n) bs)))"

fun split_blocks :: "nat \<Rightarrow> byte list \<Rightarrow> byte list list" where
  "split_blocks 0 bs = []"
| "split_blocks (Suc n) bs = take 16 bs # split_blocks n (drop 16 bs)"

definition blocks16 :: "byte list \<Rightarrow> byte list list" where
  "blocks16 bs = split_blocks (length bs div 16) bs"

definition xor_bytes :: "byte list \<Rightarrow> byte list \<Rightarrow> byte list" where
  "xor_bytes xs ys = map2 (\<lambda>x y. xor x y) xs ys"

text \<open>\<^verbatim>\<open>modes.CBC(iv)\<close>: each plaintext block is mixed with the previous ciphertext block.\<close>

fun cbc_encrypt_blocks ::
  "(byte list \<Rightarrow> byte list) \<Rightarrow> byte list \<Rightarrow> byte list list \<Rightarrow> byte list list" where
  "cbc_encrypt_blocks E prev [] = []"
| "cbc_encrypt_blocks E prev (p # ps) =
     (let c = E (xor_bytes p prev) in c # cbc_encrypt_blocks E c ps)"

fun cbc_decrypt_blocks ::
  "(byte list \<Rightarrow> byte list) \<Rightarrow> byte list \<Rightarrow> byte list list \<Rightarrow> byte list list" where
  "cbc_decrypt_blocks D prev [] = []"
| "cbc_decrypt_blocks D prev (c # cs) = xor_bytes (D c) prev # cbc_decrypt_blocks D c cs"

text \<open>
  \<^verbatim>\<open>Cipher(algorithms.AES(key), modes.CBC(iv))\<close>: the key is 128, 192 or 256 bits long and
  the initialisation vector one block, or the constructor raises.
\<close>

definition cipher_ok :: "byte list \<Rightarrow> byte list \<Rightarrow> bool" where
  "cipher_ok key iv = (length key \<in> {16, 24, 32} \<and> length iv = 16)"

text \<open>\<^verbatim>\<open>base64.b64decode(encryption_key)\<close>: a \<^verbatim>\<open>TypeError\<close> on \<^verbatim>\<open>None\<close>.\<close>

definition decode_key :: "primitives \<Rightarrow> string option \<Rightarrow> error + byte list" where
  "decode_key P encryption_key =
     (case encryption_key of
        None \<Rightarrow> Inl TypeError
      | Some k \<Rightarrow> (case b64decode P k of None \<Rightarrow> Inl ValueError | Some kb \<Rightarrow> Inr kb))"

text \<open>
  The bytes \<^verbatim>\<open>iv + ciphertext\<close> of \<^verbatim>\<open>encrypt_data\<close>, before the base64 encoding; \<open>iv\<close>
  is the value of \<^verbatim>\<open>os.urandom(16)\<close>. The second component is the ciphertext alone.
\<close>

definition encrypt_bytes ::
  "primitives \<Rightarrow> byte list \<Rightarrow> jval \<Rightarrow> string option \<Rightarrow> error + (byte list \<times> byte list)" where
  "encrypt_bytes P iv data_in encryption_key =
     (case decode_key P encryption_key of
        Inl e \<Rightarrow> Inl e
      | Inr key \<Rightarrow>
          if \<not> cipher_ok key iv then Inl ValueError
          else (let plaintext = json_dumps P (json_document data_in);
                    padded_data = pkcs7_pad plaintext
                in if length padded_data mod 16 \<noteq> 0 then Inl ValueError
                   else (let ciphertext =
                               concat (cbc_encrypt_blocks (aes_encrypt_block P key) iv
                                         (blocks16 padded_data))
                         in Inr (iv @ ciphertext, ciphertext))))"

definition encrypt_data ::
  "primitives \<Rightarrow> byte list \<Rightarrow> jval \<Rightarrow> string option \<Rightarrow> error + string" where
  "encrypt_data P iv data_in encryption_key =
     (case encrypt_bytes P iv data_in encryption_key of
        Inl e \<Rightarrow> Inl e
      | Inr (raw, ciphertext) \<Rightarrow> Inr (b64encode P raw))"

text \<open>
  \<^verbatim>\<open>decrypt_data\<close>. The callers hand over whatever the JSON document held;
  \<^verbatim>\<open>base64.b64decode\<close> takes a string.
\<close>

definition decrypt_data :: "primitives \<Rightarrow> jval \<Rightarrow> string option \<Rightarrow> error + jval" where
  "decrypt_data P encrypted_data encryption_key =
     (case encrypted_data of
        JStr enc \<Rightarrow>
          (case b64decode P enc of
             None \<Rightarrow> Inl ValueError
           | Some encrypted_bytes \<Rightarrow>
               (let iv = take 16 encrypted_bytes;
                    ciphertext = drop 16 encrypted_bytes
                in case decode_key P encryption_key of
                     Inl e \<Rightarrow> Inl e
                   | Inr key \<Rightarrow>
                       if \<not> cipher_ok key iv then Inl ValueError
                       else if length ciphertext mod 16 \<noteq> 0 then Inl ValueError
                       else (case pkcs7_unpad
                                    (concat (cbc_decrypt_blocks (aes_decrypt_block P key) iv
                                               (blocks16 ciphertext))) of
                               Inl e \<Rightarrow> Inl e
                             | Inr decrypted_data \<Rightarrow>
                                 (case json_loads P decrypted_data of
                                    None \<Rightarrow> Inl ValueError
                                  | Some v \<Rightarrow> Inr v))))
      | _ \<Rightarrow> Inl TypeError)"


text \<open>
  \<^verbatim>\<open>should_encrypt\<close>: the comparison with the pro tier is commented out in the source.
\<close>

definition should_encrypt :: "string option \<Rightarrow> bool" where
  "should_encrypt subscription_type = True"

text \<open>
  \<^verbatim>\<open>_handle_triggered_scenarios\<close> as a whole: the payload is decrypted, then the
  scenarios are walked. An exception of the decryption or of the walk leaves the function.
\<close>

definition handle_triggered_scenarios ::
  "primitives \<Rightarrow> (service_call \<Rightarrow> bool) \<Rightarrow> string option \<Rightarrow> string option \<Rightarrow> jval
     \<Rightarrow> dispatch_state \<Rightarrow> (error + unit) \<times> dispatch_state" where
  "handle_triggered_scenarios P raises tier key scenarios s =
     (case (if should_encrypt tier then decrypt_data P scenarios key else Inr scenarios) of
        Inl e \<Rightarrow> (Inl e, s)
      | Inr decrypted \<Rightarrow>
          (case py_iter decrypted of
             Inl e \<Rightarrow> (Inl e, s)
           | Inr scenario_list \<Rightarrow> handle_scenarios raises scenario_list s))"



section \<open>State-change publisher\<close>

text \<open>
  The \<^verbatim>\<open>Direktive\<close> object: the tracked entity ids (the elements of the set
  \<^verbatim>\<open>self.entity_ids\<close> in the order in which a loop visits them), the subscription tier
  and the key.
\<close>

record direktive =
  entity_ids :: "string list"
  subscription_type :: "string option"
  encryption_key :: "string option"

text \<open>
  \<^verbatim>\<open>Direktive.__init__\<close>: \<^verbatim>\<open>set(entity_ids)\<close> and \<^verbatim>\<open>add("sun.sun")\<close>. The order in
  which Python iterates a set is the runtime's choice: \<open>visit\<close> is that choice, an
  enumeration of the elements of a set.
\<close>

definition direktive_init ::
  "(string set \<Rightarrow> string list) \<Rightarrow> string list \<Rightarrow> string option \<Rightarrow> string option \<Rightarrow> direktive" where
  "direktive_init visit ids tier key =
     \<lparr>entity_ids = visit (insert ''sun.sun'' (set ids)),
      subscription_type = tier, encryption_key = key\<rparr>"

text \<open>
  The reply to \<^verbatim>\<open>POST /update-entity-state\<close>: the request raises, or it returns a
  status and a body (\<^const>\<open>None\<close> when \<^verbatim>\<open>response.json()\<close> raises on it).
\<close>

datatype post_reply =
    Post_raises
  | Post_reply int "pydict option"

text \<open>
  The host around the publisher: the live entity states, whether the config entry is
  found, the reply of the remote API, and whether a coordinator is registered.
\<close>

record host =
  states :: "string \<Rightarrow> ha_state option"
  entry_found :: bool
  post :: post_reply
  coordinator_present :: bool

text \<open>What leaves the publisher: requests to the remote API and calls into the host.\<close>

datatype publish_event =
    Post_update_entity_state jval
  | Update_entry_flag
  | Request_refresh
  | Handle_triggered_scenarios jval

record publish_state =
  initial_bulk_update_performed :: bool
  events :: "publish_event list"

definition emit :: "publish_event \<Rightarrow> publish_state \<Rightarrow> publish_state" where
  "emit e s = s\<lparr>events := events s @ [e]\<rparr>"

text \<open>
  The part of both publishers after a reply with status 200 has been parsed:
  \<^verbatim>\<open>if "triggered_scenarios" in response_data\<close>. The scenarios go to
  \<^verbatim>\<open>_handle_triggered_scenarios\<close>; an exception of the handler ends in the publisher's
  \<^verbatim>\<open>except\<close> clause, which logs and leaves the publisher's state as it is.
\<close>

definition feed_scenarios :: "pydict \<Rightarrow> publish_state \<Rightarrow> publish_state" where
  "feed_scenarios response_data s =
     (case map_of response_data ''triggered_scenarios'' of
        None \<Rightarrow> s
      | Some scenarios \<Rightarrow> emit (Handle_triggered_scenarios scenarios) s)"

text \<open>\<^verbatim>\<open>_send_bulk_update\<close>.\<close>

definition send_bulk_update ::
  "primitives \<Rightarrow> byte list \<Rightarrow> host \<Rightarrow> direktive \<Rightarrow> publish_state \<Rightarrow> publish_state" where
  "send_bulk_update P iv h d s =
     (if \<not> entry_found h then s
      else if initial_bulk_update_performed s then s
      else (let entities = entities_data_bulk (states h) (entity_ids d);
                encrypted =
                  (if entities \<noteq> [] \<and> should_encrypt (subscription_type d)
                   then (case encrypt_data P iv (JList entities) (encryption_key d) of
                           Inl e \<Rightarrow> Inl e
                         | Inr enc \<Rightarrow> Inr (JStr enc))
                   else Inr (JList entities))
            in case encrypted of
                 Inl e \<Rightarrow> s
               | Inr entities_data \<Rightarrow>
                   (let payload =
                          JObj [(''entities'',
                                   JObj [(''data'', entities_data),
                                         (''encrypted'', JBool (should_encrypt (subscription_type d)))]),
                                (''bulk'', JBool True),
                                (''refresh'', JBool True)]
                    in if \<not> truthy entities_data then s
                       else (let s1 = emit (Post_update_entity_state payload) s
                             in case post h of
                                  Post_raises \<Rightarrow> s1
                                | Post_reply status body \<Rightarrow>
                                    if status \<noteq> 200 then s1
                                    else (case body of
                                            None \<Rightarrow> s1
                                          | Some response_data \<Rightarrow>
                                              (let s2 = emit Update_entry_flag
                                                          (s1\<lparr>initial_bulk_update_performed := True\<rparr>);
                                                   s3 = (if coordinator_present h
                                                         then emit Request_refresh s2 else s2)
                                               in feed_scenarios response_data s3))))))"

text \<open>
  \<^verbatim>\<open>_handle_state_change\<close> and \<^verbatim>\<open>_async_update_remote_state\<close>: the single-entity
  publish. The payload's \<^verbatim>\<open>encrypted\<close> field is the literal \<^verbatim>\<open>False\<close>.
\<close>

definition async_update_remote_state ::
  "primitives \<Rightarrow> byte list \<Rightarrow> host \<Rightarrow> direktive \<Rightarrow> string \<Rightarrow> ha_state
     \<Rightarrow> publish_state \<Rightarrow> publish_state" where
  "async_update_remote_state P iv h d entity_id st s =
     (let encrypted =
            (if should_encrypt (subscription_type d)
             then (case encrypt_data P iv (entities_data_update entity_id st) (encryption_key d) of
                     Inl e \<Rightarrow> Inl e
                   | Inr enc \<Rightarrow> Inr (JStr enc))
             else Inr (entities_data_update entity_id st))
      in case encrypted of
           Inl e \<Rightarrow> s
         | Inr entities_data \<Rightarrow>
             (let payload =
                    JObj [(''entities'',
                             JObj [(''data'', entities_data), (''encrypted'', JBool False)])];
                  s1 = emit (Post_update_entity_state payload) s
              in case post h of
                   Post_raises \<Rightarrow> s1
                 | Post_reply status body \<Rightarrow>
                     if status \<noteq> 200 then s1
                     else (case body of
                             None \<Rightarrow> s1
                           | Some response_data \<Rightarrow> feed_scenarios response_data s1)))"

definition handle_state_change ::
  "primitives \<Rightarrow> byte list \<Rightarrow> host \<Rightarrow> direktive \<Rightarrow> string \<Rightarrow> ha_state option
     \<Rightarrow> publish_state \<Rightarrow> publish_state" where
  "handle_state_change P iv h d entity_id to_state s =
     (case to_state of
        None \<Rightarrow> s
      | Some st \<Rightarrow>
          if entity_id \<notin> set (entity_ids d) then s
          else async_update_remote_state P iv h d entity_id st s)"

section \<open>Webhook endpoint\<close>

text \<open>
  The persisted config entry as the handler reads it, and the request: the header
  \<^verbatim>\<open>X-Webhook-Secret\<close> and what reading and parsing the body gives.
\<close>

record config_entry =
  conf_webhook_secret :: "string option"
  conf_subscription_type :: "string option"
  conf_encryption_key :: "string option"

datatype request_body =
    Body_read_raises
  | Body_empty
  | Body_invalid_json
  | Body_json jval

record request =
  header_secret :: "string option"
  body :: request_body

datatype response =
    Response nat
  | Raised error

datatype webhook_event =
    Request_read
  | Decrypt_data jval
  | Has_service jval jval
  | Service_call jval jval jval

text \<open>
  The platform behind the handler: which services exist and which calls raise.
\<close>

record platform =
  has_service :: "string \<Rightarrow> string \<Rightarrow> bool"
  call_raises :: "string \<Rightarrow> string \<Rightarrow> jval \<Rightarrow> bool"

text \<open>
  The end of \<^verbatim>\<open>async_handle_webhook\<close>, from the validation of the service-call data
  on. The entity id of the top level goes into the service data unless these hold one.
\<close>

definition dispatch_service_call ::
  "platform \<Rightarrow> jval \<Rightarrow> webhook_event list \<Rightarrow> response \<times> webhook_event list" where
  "dispatch_service_call pf service_call_data tr =
     (case service_call_data of
        JObj scd \<Rightarrow>
          (let service_domain = py_get scd ''domain'';
               service_name = py_get scd ''service'';
               service_entity_id = py_get scd ''entity_id'';
               service_data = py_get_default scd ''service_data'' (JObj [])
           in if \<not> truthy service_domain \<or> \<not> truthy service_name then (Response 400, tr)
              else (let prepared =
                          (if truthy service_entity_id
                           then (case py_contains ''entity_id'' service_data of
                                   Inl e \<Rightarrow> Inl e
                                 | Inr False \<Rightarrow>
                                     (case service_data of
                                        JObj sd \<Rightarrow> Inr (JObj (py_set sd ''entity_id'' service_entity_id))
                                      | _ \<Rightarrow> Inl TypeError)
                                 | Inr True \<Rightarrow>
                                     (case py_index service_data ''entity_id'' of
                                        Inl e \<Rightarrow> Inl e
                                      | Inr v \<Rightarrow> Inr service_data))
                           else Inr service_data)
                    in case prepared of
                         Inl e \<Rightarrow> (Raised e, tr)
                       | Inr sd \<Rightarrow>
                           (case (service_domain, service_name) of
                              (JStr dmn, JStr srv) \<Rightarrow>
                                (let tr1 = tr @ [Has_service service_domain service_name]
                                 in if \<not> has_service pf dmn srv then (Response 400, tr1)
                                    else if call_raises pf dmn srv sd
                                    then (Response 500, tr1 @ [Service_call service_domain service_name sd])
                                    else (Response 200, tr1 @ [Service_call service_domain service_name sd]))
                            | _ \<Rightarrow> (Response 500, tr @ [Has_service service_domain service_name]))))
      | _ \<Rightarrow> (Response 400, tr))"

text \<open>
  \<^verbatim>\<open>async_handle_webhook\<close>. \<open>entry = None\<close> is a config entry that is not found.
\<close>

definition async_handle_webhook ::
  "primitives \<Rightarrow> platform \<Rightarrow> config_entry option \<Rightarrow> request \<Rightarrow> response \<times> webhook_event list" where
  "async_handle_webhook P pf entry req =
     (case entry of
        None \<Rightarrow> (Response 500, [])
      | Some config \<Rightarrow>
          (let expected_secret = conf_webhook_secret config;
               received_secret = header_secret req
           in if expected_secret = None \<or> expected_secret = Some []
                 \<or> received_secret = None \<or> received_secret = Some []
                 \<or> received_secret \<noteq> expected_secret
              then (Response 401, [])
              else (case body req of
                      Body_read_raises \<Rightarrow> (Response 500, [Request_read])
                    | Body_empty \<Rightarrow> (Response 400, [Request_read])
                    | Body_invalid_json \<Rightarrow> (Response 400, [Request_read])
                    | Body_json request_data \<Rightarrow>
                        if should_encrypt (conf_subscription_type config)
                        then (if conf_encryption_key config = None \<or> conf_encryption_key config = Some []
                              then (Response 500, [Request_read])
                              else (case request_data of
                                      JObj rd \<Rightarrow>
                                        (let encrypted_payload_str = py_get rd ''encrypted_payload''
                                         in if \<not> truthy encrypted_payload_str
                                            then (Response 400, [Request_read])
                                            else (case decrypt_data P encrypted_payload_str
                                                         (conf_encryption_key config) of
                                                    Inl e \<Rightarrow>
                                                      (Response 400,
                                                       [Request_read, Decrypt_data encrypted_payload_str])
                                                  | Inr service_call_data \<Rightarrow>
                                                      dispatch_service_call pf service_call_data
                                                        [Request_read, Decrypt_data encrypted_payload_str]))
                                    | _ \<Rightarrow> (Raised AttributeError, [Request_read])))
                        else (case request_data of
                                JObj rd \<Rightarrow>
                                  (let service_call_data = py_get rd ''service_call''
                                   in if \<not> truthy service_call_data then (Response 400, [Request_read])
                                      else dispatch_service_call pf service_call_data [Request_read])
                              | _ \<Rightarrow> (Raised AttributeError, [Request_read])))))"

section \<open>Example inputs\<close>

text \<open>
  A batch of three outcomes that are dicts: one without an entity id, one whose entity id
  is a number, and a valid one.
\<close>

definition example_batch :: "jval list" where
  "example_batch =
     [JObj [(''state'', JStr ''on'')],
      JObj [(''entity_id'', JInt 5), (''state'', JStr ''on'')],
      JObj [(''entity_id'', JStr ''light.kitchen''), (''state'', JStr ''on''),
            (''attributes'', JObj [(''brightness'', JInt 128)])]]"

text \<open>
  A scenario whose first outcome is the entity id alone, a string where a dict is
  expected, followed by a valid outcome.
\<close>

definition valid_outcome :: jval where
  "valid_outcome =
     JObj [(''entity_id'', JStr ''light.kitchen''), (''state'', JStr ''on''),
           (''attributes'', JObj [(''brightness'', JInt 128)])]"

definition malformed_scenarios :: "jval list" where
  "malformed_scenarios =
     [JObj [(''scenario_name'', JStr ''evening''),
            (''outcomes'', JList [JStr ''light.kitchen'', valid_outcome])]]"

text \<open>
  A remote service that reports \<^verbatim>\<open>pending\<close> twice and \<^verbatim>\<open>completed\<close> from the third
  stage fetch on, and answers at once.
\<close>

definition example_world :: world where
  "example_world =
     \<lparr>stage_reply = (\<lambda>k. if k < 2 then Inr [(''stage'', JStr ''pending'')]
                         else Inr [(''stage'', JStr ''completed'')]),
      stage_cost = (\<lambda>k. 0),
      sleep_over = (\<lambda>k. 0),
      directive_reply = Inr [(''directive'', JObj [(''id'', JStr ''d1''), (''title'', JStr ''Night mode'')])],
      directive_cost = 0,
      sensor = False\<rparr>"

definition example_start :: poll_state where
  "example_start =
     \<lparr>now = 0, data = Some \<lparr>directives = Some [], other_keys = []\<rparr>, fetched = 0, trace = []\<rparr>"

text \<open>
  A remote service that reports \<^verbatim>\<open>pending\<close> for ever and takes 200 seconds for each
  stage fetch; a coordinator whose first refresh has not succeeded yet.
\<close>

definition pending_world :: world where
  "pending_world =
     \<lparr>stage_reply = (\<lambda>k. Inr [(''stage'', JStr ''pending''), (''status'', JStr ''creating'')]),
      stage_cost = (\<lambda>k. 200000),
      sleep_over = (\<lambda>k. 0),
      directive_reply = Inl ApiError,
      directive_cost = 0,
      sensor = False\<rparr>"

definition no_data_start :: poll_state where
  "no_data_start = \<lparr>now = 0, data = None, fetched = 0, trace = []\<rparr>"

text \<open>
  A coordinator whose refresh got the reply \<^verbatim>\<open>{}\<close>: data without a
  \<^verbatim>\<open>directives\<close> key.
\<close>

definition no_collection_start :: poll_state where
  "no_collection_start =
     \<lparr>now = 0, data = Some \<lparr>directives = None, other_keys = []\<rparr>, fetched = 0, trace = []\<rparr>"

text \<open>A coordinator that already lists the directive under creation.\<close>

definition creating_start :: poll_state where
  "creating_start =
     \<lparr>now = 0,
      data = Some \<lparr>directives =
                     Some [ [(''id'', JStr ''d0''), (''status'', JStr ''active'')],
                           [(''id'', JStr ''d1''), (''status'', JStr ''creating''),
                            (''message'', JStr ''dim the hall'')]],
                   other_keys = []\<rparr>,
      fetched = 0, trace = []\<rparr>"

text \<open>
  Stand-ins for the library primitives, small enough to compute with: a block cipher that
  adds the first sixteen key bytes to the block, a text encoding that maps a byte to the
  character of the same code, and a JSON codec that knows the documents \<^verbatim>\<open>null\<close> and
  \<^verbatim>\<open>{"rgb_color": [255, 0, 0]}\<close> (the bytes are the ASCII codes of these texts).
\<close>

definition rgb_document :: jval where
  "rgb_document = JObj [(''rgb_color'', JList [JInt 255, JInt 0, JInt 0])]"

definition rgb_text :: "byte list" where
  "rgb_text = [123, 34, 114, 103, 98, 95, 99, 111, 108, 111, 114, 34, 58, 32,
               91, 50, 53, 53, 44, 32, 48, 44, 32, 48, 93, 125]"



definition toy_primitives :: primitives where
  "toy_primitives =
     \<lparr>aes_encrypt_block = (\<lambda>key b. map2 (\<lambda>x k. x + k) b (take 16 key)),
      aes_decrypt_block = (\<lambda>key b. map2 (\<lambda>x k. x - k) b (take 16 key)),
      b64encode = map (\<lambda>w. char_of (unat w)),
      b64decode = (\<lambda>s. Some (map (\<lambda>c. of_nat (of_char c)) s)),
      json_dumps = (\<lambda>v. if v = JNull then [110, 117, 108, 108]
                         else if v = rgb_document then rgb_text else [91, 93]),
      json_loads = (\<lambda>bs. if bs = [110, 117, 108, 108] then Some JNull
                          else if bs = rgb_text then Some rgb_document else None)\<rparr>"

definition toy_key :: string where
  "toy_key = replicate 32 (CHR ''k'')"

definition toy_iv :: "byte list" where
  "toy_iv = replicate 16 7"

text \<open>A request with a wrong secret and a body that would otherwise be served.\<close>

definition example_config :: config_entry where
  "example_config =
     \<lparr>conf_webhook_secret = Some ''s3cret'',
      conf_subscription_type = Some ''basic'',
      conf_encryption_key = Some toy_key\<rparr>"

definition forged_request :: request where
  "forged_request =
     \<lparr>header_secret = Some ''guess'',
      body = Body_json (JObj [(''service_call'',
                JObj [(''domain'', JStr ''lock''), (''service'', JStr ''unlock''),
                      (''entity_id'', JStr ''lock.front_door'')])])\<rparr>"

definition plain_request :: request where
  "plain_request =
     \<lparr>header_secret = Some ''s3cret'',
      body = Body_json (JObj [(''service_call'',
                JObj [(''domain'', JStr ''light''), (''service'', JStr ''turn_on''),
                      (''entity_id'', JStr ''light.kitchen'')])])\<rparr>"

definition open_platform :: platform where
  "open_platform = \<lparr>has_service = (\<lambda>d s. True), call_raises = (\<lambda>d s x. False)\<rparr>"

text \<open>
  A basic-tier installation that tracks one light; the remote API answers 200 with an
  empty JSON object.
\<close>

definition example_direktive :: direktive where
  "example_direktive =
     direktive_init (\<lambda>S. filter (\<lambda>e. e \<in> S) [''light.kitchen'', ''sun.sun''])
       [''light.kitchen''] (Some ''basic'') (Some toy_key)"

definition kitchen_state :: ha_state where
  "kitchen_state =
     \<lparr>state = ''on'',
      attributes = [(''brightness'', JInt 128), (''friendly_name'', JStr ''Kitchen'')]\<rparr>"

definition example_host :: host where
  "example_host =
     \<lparr>states = (\<lambda>e. if e = ''light.kitchen'' then Some kitchen_state else None),
      entry_found = True,
      post = Post_reply 200 (Some []),
      coordinator_present = True\<rparr>"

definition failing_host :: host where
  "failing_host = example_host\<lparr>post := Post_reply 503 None\<rparr>"

definition fresh_publisher :: publish_state where
  "fresh_publisher = \<lparr>initial_bulk_update_performed = False, events = []\<rparr>"

section \<open>Properties\<close>

subsection \<open>Published attributes\<close>




subsection \<open>Dispatcher\<close>

lemma logged_handle_object_outcome:
  "\<exists>l. logged (handle_object_outcome raises outcome s) =
         logged (snd (try_outcome raises outcome s)) @ [l]"
  by (auto simp: handle_object_outcome_def split: prod.splits option.splits sum.splits)

lemma logged_async_call: "logged (snd (async_call raises c s)) = logged s"
  by (simp add: async_call_def Let_def)

lemma logged_branch_climate:
  "logged (snd (branch_climate raises dm e st attrs s)) = logged s"
  by (simp add: branch_climate_def Let_def async_call_def
      split: sum.splits bool.splits prod.splits)

lemma logged_branch_cover: "logged (snd (branch_cover e st attrs s)) = logged s"
  by (simp add: branch_cover_def Let_def split: sum.splits bool.splits)

lemma logged_branch_alarm: "logged (snd (branch_alarm e st attrs s)) = logged s"
  by (simp add: branch_alarm_def split: jval.splits)

lemma logged_resolve: "logged (snd (resolve raises dm e st attrs s)) = logged s"
  by (simp add: resolve_def logged_branch_climate logged_branch_cover logged_branch_alarm
      branch_light_def branch_switch_def branch_number_def branch_other_def)

lemma logged_call_resolved: "logged (snd (call_resolved raises dm sd s)) = logged s"
  by (simp add: call_resolved_def async_call_def Let_def split: option.splits)

lemma logged_try_outcome: "logged (snd (try_outcome raises outcome s)) = logged s"
proof (cases "\<not> truthy (py_get outcome ''entity_id'') \<or> py_get outcome ''state'' = JNull")
  case True
  then show ?thesis by (simp add: try_outcome_def Let_def)
next
  case False
  show ?thesis
  proof (cases "py_get outcome ''entity_id''")
    case (JStr e)
    let ?r = "resolve raises (domain_of e) e (py_get outcome ''state'')
                (py_get_default outcome ''attributes'' (JObj [])) s"
    have l1: "logged (snd ?r) = logged s" by (rule logged_resolve)
    show ?thesis
    proof (cases ?r)
      case (Pair x s1)
      with l1 have l2: "logged s1 = logged s" by simp
      show ?thesis
      proof (cases x)
        case (Inl err)
        with False JStr Pair l2 show ?thesis by (simp add: try_outcome_def Let_def)
      next
        case (Inr sd)
        have "logged (snd (call_resolved raises (domain_of e) sd s1)) = logged s1"
          by (rule logged_call_resolved)
        with False JStr Pair Inr l2 show ?thesis
          by (auto simp: try_outcome_def Let_def split: prod.splits)
      qed
    qed
  qed (use False in \<open>simp_all add: try_outcome_def Let_def\<close>)
qed

lemma length_logged_handle_object_outcome:
  "length (logged (handle_object_outcome raises outcome s)) = Suc (length (logged s))"
  using logged_handle_object_outcome [of raises outcome s] by (auto simp: logged_try_outcome)

lemma handle_outcome_object:
  "handle_outcome raises (JObj outcome) s = (Inr (), handle_object_outcome raises outcome s)"
  by (simp add: handle_outcome_def)

lemma handle_object_outcome_skip:
  "\<not> truthy (py_get outcome ''entity_id'') \<or> py_get outcome ''state'' = JNull \<Longrightarrow>
   handle_object_outcome raises outcome s = s\<lparr>logged := logged s @ [Invalid_outcome]\<rparr>"
  by (simp add: handle_object_outcome_def try_outcome_def Let_def)

text \<open>
  A batch of outcomes that are all dicts is walked to its end, with one log line for each
  outcome: the \<^verbatim>\<open>except\<close> clause does what it is there for.
\<close>

lemma object_outcomes_reach_the_end:
  "\<forall>outcome \<in> set batch. \<exists>d. outcome = JObj d \<Longrightarrow>
   fst (handle_outcomes raises batch s) = Inr ()
   \<and> length (logged (snd (handle_outcomes raises batch s))) = length (logged s) + length batch"
proof (induction batch arbitrary: s)
  case Nil
  then show ?case by simp
next
  case (Cons outcome batch)
  then obtain d where d: "outcome = JObj d" by auto
  from Cons.prems have r: "\<forall>outcome \<in> set batch. \<exists>d. outcome = JObj d" by simp
  from Cons.IH [OF r, of "handle_object_outcome raises d s"] show ?case
    by (simp add: d handle_outcome_object length_logged_handle_object_outcome)
qed

lemma example_batch_walk:
  "handle_outcomes (\<lambda>c. False) example_batch dispatch_init =
     (Inr (),
      \<lparr>service = Some ''turn_on'',
       calls = [\<lparr>call_domain = ''light'', call_service = ''turn_on'',
                 call_data = [(''entity_id'', JStr ''light.kitchen''), (''brightness'', JInt 128)]\<rparr>],
       logged = [Invalid_outcome, Error_executing AttributeError, Successfully_updated]\<rparr>)"
  by code_simp

text \<open>
  C5. The code at the failing input. The batch holds the entity id alone, a string where
  an outcome dict is expected, and then a valid outcome. On the string,
  \<^verbatim>\<open>outcome.get\<close> raises in the \<^verbatim>\<open>try\<close> and again in the \<^verbatim>\<open>except\<close> clause, so the
  exception leaves the function: no service is called and nothing is logged, although the
  valid outcome handled alone turns the light on. The failure of one outcome has ended
  the batch.
\<close>

theorem non_object_outcome_ends_batch:
  "handle_scenarios (\<lambda>c. False) malformed_scenarios dispatch_init =
     (Inl AttributeError, dispatch_init)
   \<and> handle_outcomes (\<lambda>c. False) [valid_outcome] dispatch_init =
     (Inr (),
      \<lparr>service = Some ''turn_on'',
       calls = [\<lparr>call_domain = ''light'', call_service = ''turn_on'',
                 call_data = [(''entity_id'', JStr ''light.kitchen''), (''brightness'', JInt 128)]\<rparr>],
       logged = [Successfully_updated]\<rparr>)"
proof -
  have a: "handle_scenarios (\<lambda>c. False) malformed_scenarios dispatch_init =
             (Inl AttributeError, dispatch_init)"
    by (simp add: malformed_scenarios_def handle_scenario_def handle_outcome_def)
  have b: "handle_outcomes (\<lambda>c. False) [valid_outcome] dispatch_init =
     (Inr (),
      \<lparr>service = Some ''turn_on'',
       calls = [\<lparr>call_domain = ''light'', call_service = ''turn_on'',
                 call_data = [(''entity_id'', JStr ''light.kitchen''), (''brightness'', JInt 128)]\<rparr>],
       logged = [Successfully_updated]\<rparr>)"
    by code_simp
  from a b show ?thesis by simp
qed



subsection \<open>Poll loop\<close>

lemma poll_loop_nonterminal:
  "now s - start_time < 380000 \<Longrightarrow> stage_reply w (fetched s) = Inr info \<Longrightarrow>
   \<not> terminal_stage info \<Longrightarrow>
   poll_loop w directive_id start_time s =
     poll_loop w directive_id start_time (poll_turn w directive_id info s)"
  by (subst poll_loop.simps)
     (simp add: async_get_directive_stage_def terminal_stage_def poll_turn_def)

lemma poll_loop_terminal:
  "now s - start_time < 380000 \<Longrightarrow> stage_reply w (fetched s) = Inr info \<Longrightarrow>
   terminal_stage info \<Longrightarrow>
   poll_loop w directive_id start_time s =
     async_get_directive w directive_id (snd (async_get_directive_stage w directive_id s))"
  by (subst poll_loop.simps) (auto simp add: async_get_directive_stage_def terminal_stage_def)

lemma poll_loop_timeout:
  "\<not> now s - start_time < 380000 \<Longrightarrow>
   poll_loop w directive_id start_time s = (Inr None, timed_out directive_id s)"
  by (subst poll_loop.simps) simp

lemma now_merge_stage: "now (merge_stage i info s) = now s"
  by (simp add: merge_stage_def async_set_updated_data_def Let_def split: option.splits)

lemma fetched_merge_stage: "fetched (merge_stage i info s) = fetched s"
  by (simp add: merge_stage_def async_set_updated_data_def Let_def split: option.splits)

lemma now_poll_turn:
  "now (poll_turn w i info s) = now s + stage_cost w (fetched s) + 10000 + sleep_over w (fetched s)"
  by (simp add: poll_turn_def sleep10_def now_merge_stage fetched_merge_stage
      async_get_directive_stage_def)

lemma fetched_poll_turn: "fetched (poll_turn w i info s) = Suc (fetched s)"
  by (simp add: poll_turn_def sleep10_def fetched_merge_stage async_get_directive_stage_def)

lemma stage_fetches_Cons:
  "stage_fetches [] = 0"
  "stage_fetches (e # tr) = (case e of Stage_fetch i \<Rightarrow> 1 | _ \<Rightarrow> 0) + stage_fetches tr"
  by (simp_all add: stage_fetches_def split: poll_event.splits)

lemma directive_fetches_Cons:
  "directive_fetches [] = 0"
  "directive_fetches (e # tr) = (case e of Directive_fetch i \<Rightarrow> 1 | _ \<Rightarrow> 0) + directive_fetches tr"
  by (simp_all add: directive_fetches_def split: poll_event.splits)

lemma stage_fetches_append:
  "stage_fetches (xs @ ys) = stage_fetches xs + stage_fetches ys"
  by (simp add: stage_fetches_def)

lemma directive_fetches_append:
  "directive_fetches (xs @ ys) = directive_fetches xs + directive_fetches ys"
  by (simp add: directive_fetches_def)

lemma trace_merge_stage:
  "\<exists>c. trace (merge_stage i info s) = trace s \<or> trace (merge_stage i info s) = trace s @ [Set_updated_data c]"
  by (simp add: merge_stage_def async_set_updated_data_def Let_def split: option.splits)

lemma stage_fetches_merge_stage:
  "stage_fetches (trace (merge_stage i info s)) = stage_fetches (trace s)"
  using trace_merge_stage [of i info s] by (auto simp: stage_fetches_def)

lemma directive_fetches_merge_stage:
  "directive_fetches (trace (merge_stage i info s)) = directive_fetches (trace s)"
  using trace_merge_stage [of i info s] by (auto simp: directive_fetches_def)

lemma stage_fetches_poll_turn:
  "stage_fetches (trace (poll_turn w i info s)) = Suc (stage_fetches (trace s))"
  by (simp add: poll_turn_def sleep10_def stage_fetches_append stage_fetches_merge_stage
      async_get_directive_stage_def) (simp add: stage_fetches_def)

lemma directive_fetches_poll_turn:
  "directive_fetches (trace (poll_turn w i info s)) = directive_fetches (trace s)"
  by (simp add: poll_turn_def sleep10_def directive_fetches_append directive_fetches_merge_stage
      async_get_directive_stage_def) (simp add: directive_fetches_def)

lemma trace_async_get_directive:
  "\<exists>rest. trace (snd (async_get_directive w i s)) = trace s @ Directive_fetch i # rest
     \<and> stage_fetches rest = 0 \<and> directive_fetches rest = 0"
  by (auto simp: async_get_directive_def Let_def async_set_updated_data_def
      stage_fetches_def directive_fetches_def
      split: sum.splits option.splits jval.splits)

lemma fetches_async_get_directive:
  "stage_fetches (trace (snd (async_get_directive w i s))) = stage_fetches (trace s)"
  "directive_fetches (trace (snd (async_get_directive w i s))) = Suc (directive_fetches (trace s))"
  using trace_async_get_directive [of w i s]
  by (auto simp: stage_fetches_append directive_fetches_append
      stage_fetches_Cons directive_fetches_Cons)


lemma async_get_directive_returns:
  assumes "directive_reply w = Inr resp" and "py_get resp ''directive'' = JObj dd" and "dd \<noteq> []"
  shows "\<exists>m. fst (async_get_directive w i s) = Inr (Some (JObj dd))
           \<or> fst (async_get_directive w i s) = Inr (Some (JObj (py_set dd ''messages'' m)))"
  using assms
  by (auto simp: async_get_directive_def Let_def split: option.splits)

lemma poll_two_then_terminal:
  assumes r0: "stage_reply w (fetched s) = Inr i0" and n0: "\<not> terminal_stage i0"
    and r1: "stage_reply w (Suc (fetched s)) = Inr i1" and n1: "\<not> terminal_stage i1"
    and r2: "stage_reply w (Suc (Suc (fetched s))) = Inr i2" and t2: "terminal_stage i2"
    and timing: "stage_cost w (fetched s) + sleep_over w (fetched s)
                 + stage_cost w (Suc (fetched s)) + sleep_over w (Suc (fetched s)) < 360000"
  shows "async_poll_directive w directive_id s =
           async_get_directive w directive_id
             (snd (async_get_directive_stage w directive_id
                (poll_turn w directive_id i1 (poll_turn w directive_id i0 s))))"
proof -
  let ?s1 = "poll_turn w directive_id i0 s"
  let ?s2 = "poll_turn w directive_id i1 ?s1"
  have a: "poll_loop w directive_id (now s) s = poll_loop w directive_id (now s) ?s1"
    using r0 n0 by (intro poll_loop_nonterminal) simp_all
  have f1: "fetched ?s1 = Suc (fetched s)" by (rule fetched_poll_turn)
  have t1: "now ?s1 - now s < 380000" using timing by (simp add: now_poll_turn)
  have b: "poll_loop w directive_id (now s) ?s1 = poll_loop w directive_id (now s) ?s2"
    using r1 n1 t1 f1 by (intro poll_loop_nonterminal) simp_all
  have f2: "fetched ?s2 = Suc (Suc (fetched s))" by (simp add: fetched_poll_turn)
  have t2': "now ?s2 - now s < 380000" using timing by (simp add: now_poll_turn f1)
  have c: "poll_loop w directive_id (now s) ?s2 =
           async_get_directive w directive_id (snd (async_get_directive_stage w directive_id ?s2))"
    using r2 t2 t2' f2 by (intro poll_loop_terminal) simp_all
  show ?thesis unfolding async_poll_directive_def using a b c by simp
qed

lemma poll_two_then_terminal_fetches:
  assumes r0: "stage_reply w (fetched s) = Inr i0" and n0: "\<not> terminal_stage i0"
    and r1: "stage_reply w (Suc (fetched s)) = Inr i1" and n1: "\<not> terminal_stage i1"
    and r2: "stage_reply w (Suc (Suc (fetched s))) = Inr i2" and t2: "terminal_stage i2"
    and timing: "stage_cost w (fetched s) + sleep_over w (fetched s)
                 + stage_cost w (Suc (fetched s)) + sleep_over w (Suc (fetched s)) < 360000"
  shows "stage_fetches (trace (snd (async_poll_directive w directive_id s))) =
           stage_fetches (trace s) + 3"
    and "directive_fetches (trace (snd (async_poll_directive w directive_id s))) =
           directive_fetches (trace s) + 1"
proof -
  let ?s2 = "poll_turn w directive_id i1 (poll_turn w directive_id i0 s)"
  let ?s3 = "snd (async_get_directive_stage w directive_id ?s2)"
  have e: "async_poll_directive w directive_id s = async_get_directive w directive_id ?s3"
    using assms by (rule poll_two_then_terminal)
  have s3: "stage_fetches (trace ?s3) = stage_fetches (trace s) + 3"
    by (simp add: async_get_directive_stage_def stage_fetches_append stage_fetches_poll_turn
        stage_fetches_def [of "[Stage_fetch directive_id]"])
  have d3: "directive_fetches (trace ?s3) = directive_fetches (trace s)"
    by (simp add: async_get_directive_stage_def directive_fetches_append directive_fetches_poll_turn
        directive_fetches_def [of "[Stage_fetch directive_id]"])
  show "stage_fetches (trace (snd (async_poll_directive w directive_id s))) =
           stage_fetches (trace s) + 3"
    using s3 by (simp add: e fetches_async_get_directive)
  show "directive_fetches (trace (snd (async_poll_directive w directive_id s))) =
           directive_fetches (trace s) + 1"
    using d3 by (simp add: e fetches_async_get_directive)
qed

lemma example_world_facts:
  "stage_reply example_world (fetched example_start) = Inr [(''stage'', JStr ''pending'')]"
  "\<not> terminal_stage [(''stage'', JStr ''pending'')]"
  "stage_reply example_world (Suc (fetched example_start)) = Inr [(''stage'', JStr ''pending'')]"
  "stage_reply example_world (Suc (Suc (fetched example_start))) = Inr [(''stage'', JStr ''completed'')]"
  "terminal_stage [(''stage'', JStr ''completed'')]"
  "stage_cost example_world (fetched example_start) + sleep_over example_world (fetched example_start)
     + stage_cost example_world (Suc (fetched example_start))
     + sleep_over example_world (Suc (fetched example_start)) < 360000"
  "stage_fetches (trace example_start) = 0"
  "directive_fetches (trace example_start) = 0"
  by (simp_all add: example_world_def example_start_def terminal_stage_def py_get_def
      stage_fetches_def directive_fetches_def)

theorem two_stage_fetches_counterexample:
  "stage_fetches (trace (snd (async_poll_directive example_world ''d1'' example_start))) = 3
   \<and> stage_fetches (trace (snd (async_poll_directive example_world ''d1'' example_start))) \<noteq> 2"
  using poll_two_then_terminal_fetches(1) [OF example_world_facts(1,2,3,2,4,5,6), of "''d1''"]
  by (simp add: example_world_facts(7))

text \<open>
  C2, as amended. When the first two stage fetches return a stage that is not terminal
  and the third returns \<^verbatim>\<open>completed\<close> or \<^verbatim>\<open>failed\<close> (and the two turns stay within the
  380 seconds), the poll makes exactly three stage fetches and one full-directive fetch,
  and its result is the result of that full fetch; for a reply that holds a directive
  record this is the record (with the messages of the collection's entry), not the stage
  payload and not an error.
\<close>

theorem poll_pending_pending_terminal:
  assumes "stage_reply w (fetched s) = Inr i0" and "\<not> terminal_stage i0"
    and "stage_reply w (Suc (fetched s)) = Inr i1" and "\<not> terminal_stage i1"
    and "stage_reply w (Suc (Suc (fetched s))) = Inr i2" and "terminal_stage i2"
    and "stage_cost w (fetched s) + sleep_over w (fetched s)
         + stage_cost w (Suc (fetched s)) + sleep_over w (Suc (fetched s)) < 360000"
  shows "stage_fetches (trace (snd (async_poll_directive w directive_id s))) =
           stage_fetches (trace s) + 3
       \<and> directive_fetches (trace (snd (async_poll_directive w directive_id s))) =
           directive_fetches (trace s) + 1
       \<and> async_poll_directive w directive_id s =
           async_get_directive w directive_id
             (snd (async_get_directive_stage w directive_id
                (poll_turn w directive_id i1 (poll_turn w directive_id i0 s))))
       \<and> (directive_reply w = Inr resp \<and> py_get resp ''directive'' = JObj dd \<and> dd \<noteq> [] \<longrightarrow>
            (\<exists>m. fst (async_poll_directive w directive_id s) = Inr (Some (JObj dd))
               \<or> fst (async_poll_directive w directive_id s) =
                    Inr (Some (JObj (py_set dd ''messages'' m)))))"
proof -
  note e = poll_two_then_terminal [OF assms, of directive_id]
  have "directive_reply w = Inr resp \<and> py_get resp ''directive'' = JObj dd \<and> dd \<noteq> [] \<longrightarrow>
            (\<exists>m. fst (async_poll_directive w directive_id s) = Inr (Some (JObj dd))
               \<or> fst (async_poll_directive w directive_id s) =
                    Inr (Some (JObj (py_set dd ''messages'' m))))"
    unfolding e using async_get_directive_returns [of w resp dd] by blast
  with e poll_two_then_terminal_fetches [OF assms, of directive_id] show ?thesis by blast
qed

theorem poll_pending_pending_terminal_witness:
  "stage_fetches (trace (snd (async_poll_directive example_world ''d1'' example_start))) = 3
   \<and> directive_fetches (trace (snd (async_poll_directive example_world ''d1'' example_start))) = 1
   \<and> (\<exists>m. fst (async_poll_directive example_world ''d1'' example_start) =
             Inr (Some (JObj [(''id'', JStr ''d1''), (''title'', JStr ''Night mode'')]))
         \<or> fst (async_poll_directive example_world ''d1'' example_start) =
             Inr (Some (JObj (py_set [(''id'', JStr ''d1''), (''title'', JStr ''Night mode'')]
                                ''messages'' m))))"
proof -
  have r: "directive_reply example_world =
             Inr [(''directive'', JObj [(''id'', JStr ''d1''), (''title'', JStr ''Night mode'')])]"
    by (simp add: example_world_def)
  have d: "py_get [(''directive'', JObj [(''id'', JStr ''d1''), (''title'', JStr ''Night mode'')])]
             ''directive'' = JObj [(''id'', JStr ''d1''), (''title'', JStr ''Night mode'')]"
    by (simp add: py_get_def)
  note t = poll_pending_pending_terminal [OF example_world_facts(1,2,3,2,4,5,6), of "''d1''"
      "[(''directive'', JObj [(''id'', JStr ''d1''), (''title'', JStr ''Night mode'')])]"
      "[(''id'', JStr ''d1''), (''title'', JStr ''Night mode'')]"]
  from t [THEN conjunct1]
  have a: "stage_fetches (trace (snd (async_poll_directive example_world ''d1'' example_start))) = 3"
    by (simp add: example_world_facts(7))
  from t [THEN conjunct2, THEN conjunct1]
  have b: "directive_fetches (trace (snd (async_poll_directive example_world ''d1'' example_start))) = 1"
    by (simp add: example_world_facts(8))
  from t [THEN conjunct2, THEN conjunct2, THEN conjunct2] r d have c: "\<exists>m. fst (async_poll_directive example_world ''d1'' example_start) =
             Inr (Some (JObj [(''id'', JStr ''d1''), (''title'', JStr ''Night mode'')]))
         \<or> fst (async_poll_directive example_world ''d1'' example_start) =
             Inr (Some (JObj (py_set [(''id'', JStr ''d1''), (''title'', JStr ''Night mode'')]
                                ''messages'' m)))"
    by blast
  from a b c show ?thesis by blast
qed

lemma py_get_py_set:
  "py_get (py_set d k v) k' = (if k' = k then v else py_get d k')"
  by (simp add: py_get_def py_set_def update_conv')

lemma map_of_py_set: "map_of (py_set d k v) = (map_of d)(k \<mapsto> v)"
  by (simp add: py_set_def update_conv')

lemma has_id_updated_directive: "has_id i (updated_directive info d) = has_id i d"
  by (simp add: has_id_def updated_directive_def py_get_py_set)

lemma has_id_new_directive: "has_id i (new_directive i info)"
  by (simp add: has_id_def new_directive_def py_get_def)

lemma map_not_found:
  "\<not> list_ex (has_id i) ds \<Longrightarrow> map (\<lambda>d. if has_id i d then f d else d) ds = ds"
  by (induction ds) auto

lemma merge_stage_present:
  assumes "data s = Some c" and "directives c = Some ds"
  shows "merge_stage i info s =
     async_set_updated_data
       (c\<lparr>directives := Some (if list_ex (has_id i) ds
                               then map (\<lambda>d. if has_id i d then updated_directive info d else d) ds
                               else ds @ [new_directive i info])\<rparr>) s"
  using assms
  by (simp add: merge_stage_def Let_def map_not_found)

lemma merge_stage_absent:
  "data s = None \<or> (\<exists>c. data s = Some c \<and> directives c = None) \<Longrightarrow> merge_stage i info s = s"
  by (auto simp: merge_stage_def Let_def)


lemma nth_map_updated:
  "n < length ds \<Longrightarrow> has_id i (ds ! n) \<Longrightarrow>
   map_of (map (\<lambda>d. if has_id i d then updated_directive info d else d) ds ! n) =
     (map_of (ds ! n))(''creation_stage'' \<mapsto> py_get info ''stage'',
                        ''creation_message'' \<mapsto> py_get info ''stage_message'',
                        ''status'' \<mapsto> py_get info ''status'')"
  by (simp add: updated_directive_def map_of_py_set)

lemma new_directive_fields:
  "py_get (new_directive i info) ''id'' = JStr i"
  "py_get (new_directive i info) ''creation_stage'' = py_get info ''stage''"
  "py_get (new_directive i info) ''creation_message'' = py_get info ''stage_message''"
  "py_get (new_directive i info) ''status'' = JStr ''creating''"
  "py_get (new_directive i info) ''discovery'' = JBool False"
  by (simp_all add: new_directive_def py_get_def)

theorem merge_without_collection_counterexample:
  "\<not> terminal_stage [(''stage'', JStr ''pending''), (''status'', JStr ''creating'')]
   \<and> data (poll_turn pending_world ''d1''
              [(''stage'', JStr ''pending''), (''status'', JStr ''creating'')] no_collection_start) =
       Some \<lparr>directives = None, other_keys = []\<rparr>
   \<and> snapshots (trace (poll_turn pending_world ''d1''
              [(''stage'', JStr ''pending''), (''status'', JStr ''creating'')] no_collection_start)) = []"
  by (simp add: terminal_stage_def py_get_def poll_turn_def sleep10_def merge_stage_def
      async_get_directive_stage_def no_collection_start_def)

text \<open>
  C3, as amended. In a turn of the loop on a stage that is not terminal, when the
  coordinator's data holds a directive collection: every entry with the directive's id
  gets \<^verbatim>\<open>creation_stage\<close>, \<^verbatim>\<open>creation_message\<close> and \<^verbatim>\<open>status\<close> of the stage
  info and keeps its other keys, the other entries stay as they are; when no entry has
  the id, an entry with the id, the stage, status \<^verbatim>\<open>creating\<close> and discovery false is
  appended; the new data as a whole becomes the coordinator's data and is published.
  When the coordinator has no data yet, or data without a collection, the turn merges,
  synthesizes and publishes nothing.
\<close>

theorem merge_stage_publishes:
  "(data s = Some c \<and> directives c = Some ds \<longrightarrow>
      (\<exists>ds'. merge_stage i info s =
                s\<lparr>data := Some (c\<lparr>directives := Some ds'\<rparr>),
                  trace := trace s @ [Set_updated_data (c\<lparr>directives := Some ds'\<rparr>)]\<rparr>
         \<and> (list_ex (has_id i) ds \<longrightarrow>
               length ds' = length ds
               \<and> (\<forall>n<length ds.
                     (has_id i (ds ! n) \<longrightarrow>
                        map_of (ds' ! n) =
                          (map_of (ds ! n))(''creation_stage'' \<mapsto> py_get info ''stage'',
                                             ''creation_message'' \<mapsto> py_get info ''stage_message'',
                                             ''status'' \<mapsto> py_get info ''status''))
                     \<and> (\<not> has_id i (ds ! n) \<longrightarrow> ds' ! n = ds ! n)))
         \<and> (\<not> list_ex (has_id i) ds \<longrightarrow>
               ds' = ds @ [new_directive i info]
               \<and> py_get (new_directive i info) ''id'' = JStr i
               \<and> py_get (new_directive i info) ''creation_stage'' = py_get info ''stage''
               \<and> py_get (new_directive i info) ''creation_message'' = py_get info ''stage_message''
               \<and> py_get (new_directive i info) ''status'' = JStr ''creating''
               \<and> py_get (new_directive i info) ''discovery'' = JBool False)))
   \<and> (data s = None \<or> (\<exists>c. data s = Some c \<and> directives c = None) \<longrightarrow>
        merge_stage i info s = s)
   \<and> (now s - start_time < 380000 \<and> stage_reply w (fetched s) = Inr info \<and> \<not> terminal_stage info \<longrightarrow>
        poll_loop w i start_time s =
          poll_loop w i start_time
            (sleep10 w (merge_stage i info (snd (async_get_directive_stage w i s)))))"
proof (intro conjI impI)
  assume a: "data s = Some c \<and> directives c = Some ds"
  let ?ds' = "if list_ex (has_id i) ds
              then map (\<lambda>d. if has_id i d then updated_directive info d else d) ds
              else ds @ [new_directive i info]"
  have m: "merge_stage i info s =
             s\<lparr>data := Some (c\<lparr>directives := Some ?ds'\<rparr>),
               trace := trace s @ [Set_updated_data (c\<lparr>directives := Some ?ds'\<rparr>)]\<rparr>"
    using a merge_stage_present [of s c ds i info] by (simp add: async_set_updated_data_def)
  have f: "list_ex (has_id i) ds \<longrightarrow>
             length ?ds' = length ds
             \<and> (\<forall>n<length ds.
                   (has_id i (ds ! n) \<longrightarrow>
                      map_of (?ds' ! n) =
                        (map_of (ds ! n))(''creation_stage'' \<mapsto> py_get info ''stage'',
                                           ''creation_message'' \<mapsto> py_get info ''stage_message'',
                                           ''status'' \<mapsto> py_get info ''status''))
                   \<and> (\<not> has_id i (ds ! n) \<longrightarrow> ?ds' ! n = ds ! n))"
    using nth_map_updated [of _ ds i info] by simp
  have n: "\<not> list_ex (has_id i) ds \<longrightarrow>
               ?ds' = ds @ [new_directive i info]
               \<and> py_get (new_directive i info) ''id'' = JStr i
               \<and> py_get (new_directive i info) ''creation_stage'' = py_get info ''stage''
               \<and> py_get (new_directive i info) ''creation_message'' = py_get info ''stage_message''
               \<and> py_get (new_directive i info) ''status'' = JStr ''creating''
               \<and> py_get (new_directive i info) ''discovery'' = JBool False"
    by (simp add: new_directive_fields)
  from m f n
  show "\<exists>ds'. merge_stage i info s =
                s\<lparr>data := Some (c\<lparr>directives := Some ds'\<rparr>),
                  trace := trace s @ [Set_updated_data (c\<lparr>directives := Some ds'\<rparr>)]\<rparr>
         \<and> (list_ex (has_id i) ds \<longrightarrow>
               length ds' = length ds
               \<and> (\<forall>n<length ds.
                     (has_id i (ds ! n) \<longrightarrow>
                        map_of (ds' ! n) =
                          (map_of (ds ! n))(''creation_stage'' \<mapsto> py_get info ''stage'',
                                             ''creation_message'' \<mapsto> py_get info ''stage_message'',
                                             ''status'' \<mapsto> py_get info ''status''))
                     \<and> (\<not> has_id i (ds ! n) \<longrightarrow> ds' ! n = ds ! n)))
         \<and> (\<not> list_ex (has_id i) ds \<longrightarrow>
               ds' = ds @ [new_directive i info]
               \<and> py_get (new_directive i info) ''id'' = JStr i
               \<and> py_get (new_directive i info) ''creation_stage'' = py_get info ''stage''
               \<and> py_get (new_directive i info) ''creation_message'' = py_get info ''stage_message''
               \<and> py_get (new_directive i info) ''status'' = JStr ''creating''
               \<and> py_get (new_directive i info) ''discovery'' = JBool False)"
    by (intro exI [of _ ?ds'] conjI)
next
  assume "data s = None \<or> (\<exists>c. data s = Some c \<and> directives c = None)"
  then show "merge_stage i info s = s" by (rule merge_stage_absent)
next
  assume "now s - start_time < 380000 \<and> stage_reply w (fetched s) = Inr info \<and> \<not> terminal_stage info"
  then show "poll_loop w i start_time s =
          poll_loop w i start_time
            (sleep10 w (merge_stage i info (snd (async_get_directive_stage w i s))))"
    using poll_loop_nonterminal [of s start_time w info i] by (simp add: poll_turn_def)
qed


theorem merge_stage_publishes_witness:
  "poll_loop example_world ''d1'' 0 example_start =
     poll_loop example_world ''d1'' 0
       (sleep10 example_world (merge_stage ''d1'' [(''stage'', JStr ''pending'')]
          (snd (async_get_directive_stage example_world ''d1'' example_start))))
   \<and> (\<exists>ds'. merge_stage ''d1'' [(''stage'', JStr ''pending'')] example_start =
        example_start\<lparr>data := Some \<lparr>directives = Some ds', other_keys = []\<rparr>,
                       trace := [Set_updated_data \<lparr>directives = Some ds', other_keys = []\<rparr>]\<rparr>
        \<and> ds' = [new_directive ''d1'' [(''stage'', JStr ''pending'')]])
   \<and> merge_stage ''d1'' [(''stage'', JStr ''pending'')] no_data_start = no_data_start
   \<and> (\<exists>ds'. data (merge_stage ''d1'' [(''stage'', JStr ''pending'')] creating_start) =
              Some \<lparr>directives = Some ds', other_keys = []\<rparr>
        \<and> length ds' = 2
        \<and> ds' ! 0 = [(''id'', JStr ''d0''), (''status'', JStr ''active'')]
        \<and> map_of (ds' ! 1) ''creation_stage'' = Some (JStr ''pending'')
        \<and> map_of (ds' ! 1) ''message'' = Some (JStr ''dim the hall''))"
proof -
  let ?info = "[(''stage'', JStr ''pending'')]"
  let ?c0 = "\<lparr>directives = Some [], other_keys = []\<rparr>"
  let ?ds1 = "[ [(''id'', JStr ''d0''), (''status'', JStr ''active'')],
               [(''id'', JStr ''d1''), (''status'', JStr ''creating''),
                (''message'', JStr ''dim the hall'')]]"
  let ?c1 = "\<lparr>directives = Some ?ds1, other_keys = []\<rparr>"
  have h0: "data example_start = Some ?c0 \<and> directives ?c0 = Some []"
    by (simp add: example_start_def)
  have n0: "\<not> list_ex (has_id ''d1'') []" by simp
  have l0: "now example_start - 0 < 380000
            \<and> stage_reply example_world (fetched example_start) = Inr ?info
            \<and> \<not> terminal_stage ?info"
    by (simp add: example_start_def example_world_def terminal_stage_def py_get_def)
  have hn: "data no_data_start = None \<or> (\<exists>c. data no_data_start = Some c \<and> directives c = None)"
    by (simp add: no_data_start_def)
  have h1: "data creating_start = Some ?c1 \<and> directives ?c1 = Some ?ds1"
    by (simp add: creating_start_def)
  have f1: "list_ex (has_id ''d1'') ?ds1" "has_id ''d1'' (?ds1 ! 1)" "\<not> has_id ''d1'' (?ds1 ! 0)"
    by (simp_all add: has_id_def py_get_def)
  note t0 = merge_stage_publishes [of example_start ?c0 "[]" "''d1''" ?info 0 example_world]
  note tn = merge_stage_publishes [of no_data_start _ _ "''d1''" ?info 0 example_world]
  note t1 = merge_stage_publishes [of creating_start ?c1 ?ds1 "''d1''" ?info 0 example_world]
  from t0 l0 have a: "poll_loop example_world ''d1'' 0 example_start =
     poll_loop example_world ''d1'' 0
       (sleep10 example_world (merge_stage ''d1'' ?info
          (snd (async_get_directive_stage example_world ''d1'' example_start))))"
    by blast
  from t0 h0 n0 have b: "\<exists>ds'. merge_stage ''d1'' ?info example_start =
        example_start\<lparr>data := Some \<lparr>directives = Some ds', other_keys = []\<rparr>,
                       trace := [Set_updated_data \<lparr>directives = Some ds', other_keys = []\<rparr>]\<rparr>
        \<and> ds' = [new_directive ''d1'' ?info]"
    by (auto simp: example_start_def)
  from tn hn have c: "merge_stage ''d1'' ?info no_data_start = no_data_start" by blast
  from t1 h1 obtain ds' where
    d1: "merge_stage ''d1'' ?info creating_start =
           creating_start\<lparr>data := Some (?c1\<lparr>directives := Some ds'\<rparr>),
             trace := trace creating_start @ [Set_updated_data (?c1\<lparr>directives := Some ds'\<rparr>)]\<rparr>"
    and d2: "list_ex (has_id ''d1'') ?ds1 \<longrightarrow>
               length ds' = length ?ds1
               \<and> (\<forall>n<length ?ds1.
                     (has_id ''d1'' (?ds1 ! n) \<longrightarrow>
                        map_of (ds' ! n) =
                          (map_of (?ds1 ! n))(''creation_stage'' \<mapsto> py_get ?info ''stage'',
                                             ''creation_message'' \<mapsto> py_get ?info ''stage_message'',
                                             ''status'' \<mapsto> py_get ?info ''status''))
                     \<and> (\<not> has_id ''d1'' (?ds1 ! n) \<longrightarrow> ds' ! n = ?ds1 ! n))"
    by blast
  from d2 f1(1) have "length ds' = length ?ds1" by blast
  then have len: "length ds' = 2" by simp
  from d2 f1(1) have all: "\<forall>n<length ?ds1.
                     (has_id ''d1'' (?ds1 ! n) \<longrightarrow>
                        map_of (ds' ! n) =
                          (map_of (?ds1 ! n))(''creation_stage'' \<mapsto> py_get ?info ''stage'',
                                             ''creation_message'' \<mapsto> py_get ?info ''stage_message'',
                                             ''status'' \<mapsto> py_get ?info ''status''))
                     \<and> (\<not> has_id ''d1'' (?ds1 ! n) \<longrightarrow> ds' ! n = ?ds1 ! n)"
    by blast
  have lt: "0 < length ?ds1" "1 < length ?ds1" by simp_all
  from all lt(1) f1(3) have "ds' ! 0 = ?ds1 ! 0" by blast
  then have e0: "ds' ! 0 = [(''id'', JStr ''d0''), (''status'', JStr ''active'')]"
    by simp
  from all lt(2) f1(2)
  have e1: "map_of (ds' ! 1) =
              (map_of (?ds1 ! 1))(''creation_stage'' \<mapsto> py_get ?info ''stage'',
                                  ''creation_message'' \<mapsto> py_get ?info ''stage_message'',
                                  ''status'' \<mapsto> py_get ?info ''status'')"
    by blast
  have e2: "map_of (ds' ! 1) ''creation_stage'' = Some (JStr ''pending'')"
       "map_of (ds' ! 1) ''message'' = Some (JStr ''dim the hall'')"
    using e1 by (simp_all add: py_get_def)
  have d: "\<exists>ds'. data (merge_stage ''d1'' ?info creating_start) =
              Some \<lparr>directives = Some ds', other_keys = []\<rparr>
        \<and> length ds' = 2
        \<and> ds' ! 0 = [(''id'', JStr ''d0''), (''status'', JStr ''active'')]
        \<and> map_of (ds' ! 1) ''creation_stage'' = Some (JStr ''pending'')
        \<and> map_of (ds' ! 1) ''message'' = Some (JStr ''dim the hall'')"
    using d1 len e0 e2 by (intro exI [of _ ds']) simp
  from a b c d show ?thesis by blast
qed

lemma poll_loop_all_pending:
  assumes ap: "\<And>k. \<exists>info. stage_reply w k = Inr info \<and> \<not> terminal_stage info"
    and step: "\<And>s info. I s \<Longrightarrow> stage_reply w (fetched s) = Inr info \<Longrightarrow>
                 \<not> terminal_stage info \<Longrightarrow> I (poll_turn w i info s)"
    and init: "I s"
  shows "\<exists>s'. I s' \<and> 380000 \<le> now s' - start_time \<and> now s \<le> now s'
           \<and> poll_loop w i start_time s = (Inr None, timed_out i s')"
  using init
proof (induction "start_time + 380000 - now s" arbitrary: s rule: less_induct)
  case less
  show ?case
  proof (cases "now s - start_time < 380000")
    case False
    then have "poll_loop w i start_time s = (Inr None, timed_out i s)"
      by (rule poll_loop_timeout)
    with False less.prems show ?thesis by (intro exI [of _ s]) simp
  next
    case True
    from ap obtain info where r: "stage_reply w (fetched s) = Inr info" and n: "\<not> terminal_stage info"
      by blast
    let ?s1 = "poll_turn w i info s"
    have e: "poll_loop w i start_time s = poll_loop w i start_time ?s1"
      using True r n by (rule poll_loop_nonterminal)
    have t: "now ?s1 = now s + stage_cost w (fetched s) + 10000 + sleep_over w (fetched s)"
      by (rule now_poll_turn)
    have m: "start_time + 380000 - now ?s1 < start_time + 380000 - now s"
      using True t by linarith
    have i1: "I ?s1" using less.prems r n by (rule step)
    from less.hyps [OF m i1] obtain s' where
      "I s'" "380000 \<le> now s' - start_time" "now ?s1 \<le> now s'"
      "poll_loop w i start_time ?s1 = (Inr None, timed_out i s')"
      by blast
    with e t show ?thesis by (intro exI [of _ s']) simp
  qed
qed

lemma now_timed_out: "now (timed_out i s) = now s"
  by (simp add: timed_out_def async_set_updated_data_def split: option.splits)

lemma data_poll_turn: "data (poll_turn w i info s) = data (merge_stage i info s)"
  by (simp add: poll_turn_def sleep10_def merge_stage_def async_get_directive_stage_def
      async_set_updated_data_def Let_def split: option.splits)

lemma snapshots_append: "snapshots (xs @ ys) = snapshots xs @ snapshots ys"
  by (induction xs rule: snapshots.induct) simp_all

lemma poll_turn_absent:
  assumes "data s = None \<or> (\<exists>c. data s = Some c \<and> directives c = None)"
  shows "data (poll_turn w i info s) = data s"
    and "snapshots (trace (poll_turn w i info s)) = snapshots (trace s)"
  using assms
  by (auto simp: poll_turn_def sleep10_def merge_stage_def async_get_directive_stage_def
      snapshots_append)

lemma timed_out_absent:
  "data s = None \<or> (\<exists>c. data s = Some c \<and> directives c = None) \<Longrightarrow> timed_out i s = s"
  by (auto simp: timed_out_def)

lemma poll_absent:
  assumes ap: "\<And>k. \<exists>info. stage_reply w k = Inr info \<and> \<not> terminal_stage info"
    and ab: "data s = None \<or> (\<exists>c. data s = Some c \<and> directives c = None)"
  shows "\<exists>s'. async_poll_directive w i s = (Inr None, s') \<and> 380000 \<le> now s' - now s
           \<and> data s' = data s \<and> snapshots (trace s') = snapshots (trace s)"
proof -
  let ?I = "\<lambda>t. data t = data s \<and> snapshots (trace t) = snapshots (trace s)"
  have step: "\<And>t info. ?I t \<Longrightarrow> stage_reply w (fetched t) = Inr info \<Longrightarrow>
                 \<not> terminal_stage info \<Longrightarrow> ?I (poll_turn w i info t)"
    using ab poll_turn_absent by metis
  from poll_loop_all_pending [of w ?I i s "now s", OF ap step]
  obtain s' where s': "?I s'" "380000 \<le> now s' - now s"
    "poll_loop w i (now s) s = (Inr None, timed_out i s')"
    by blast
  from s'(1) ab have "timed_out i s' = s'" by (intro timed_out_absent) simp
  with s' show ?thesis unfolding async_poll_directive_def by (intro exI [of _ s']) simp
qed


lemma has_id_mark_failed: "has_id i (mark_failed d) = has_id i d"
  by (simp add: has_id_def mark_failed_def py_get_py_set)

lemma timeout_marked_mark_failed: "timeout_marked (mark_failed d)"
  by (simp add: timeout_marked_def mark_failed_def py_get_py_set)

lemma discovery_mark_failed: "py_get (mark_failed d) ''discovery'' = py_get d ''discovery''"
  by (simp add: mark_failed_def py_get_py_set)

lemma discovery_updated_directive:
  "py_get (updated_directive info d) ''discovery'' = py_get d ''discovery''"
  by (simp add: updated_directive_def py_get_py_set)

lemma has_id_nonempty: "has_id i d \<Longrightarrow> d \<noteq> []"
  by (auto simp: has_id_def py_get_def)

lemma find_has_id: "list_ex (has_id i) ds \<Longrightarrow> \<exists>d. find (has_id i) ds = Some d \<and> has_id i d"
  by (induction ds) auto

lemma mark_first_found:
  "list_ex (has_id i) ds \<Longrightarrow>
   length (mark_first i ds) = length ds
   \<and> (\<exists>d. find (has_id i) (mark_first i ds) = Some d \<and> timeout_marked d)"
  by (induction ds) (auto simp: has_id_mark_failed timeout_marked_mark_failed)

lemma mark_first_snoc:
  "\<not> list_ex (has_id i) ds0 \<Longrightarrow> has_id i d \<Longrightarrow> mark_first i (ds0 @ [d]) = ds0 @ [mark_failed d]"
  by (induction ds0) auto

lemma find_snoc:
  "\<not> list_ex (has_id i) ds0 \<Longrightarrow> has_id i d \<Longrightarrow> find (has_id i) (ds0 @ [d]) = Some d"
  by (induction ds0) auto

lemma timed_out_present:
  assumes "data s = Some c" and "directives c = Some ds" and "list_ex (has_id i) ds"
  shows "timed_out i s = async_set_updated_data (c\<lparr>directives := Some (mark_first i ds)\<rparr>) s"
proof -
  from find_has_id [OF assms(3)] obtain d where d: "find (has_id i) ds = Some d" "has_id i d"
    by blast
  from d(2) have "d \<noteq> []" by (rule has_id_nonempty)
  with assms(1,2) d(1) show ?thesis by (simp add: timed_out_def)
qed

lemma list_ex_map_updated:
  "list_ex (has_id i) (map (\<lambda>d. if has_id i d then updated_directive info d else d) ds)
     = list_ex (has_id i) ds"
  by (induction ds) (auto simp: has_id_updated_directive)

lemma poll_present_found:
  assumes ap: "\<And>k. \<exists>info. stage_reply w k = Inr info \<and> \<not> terminal_stage info"
    and pr: "data t = Some c" "directives c = Some ds" "list_ex (has_id i) ds"
  shows "\<exists>s' c' ds' d. poll_loop w i start_time t = (Inr None, s')
           \<and> 380000 \<le> now s' - start_time \<and> now t \<le> now s'
           \<and> data s' = Some c' \<and> directives c' = Some ds' \<and> other_keys c' = other_keys c
           \<and> length ds' = length ds
           \<and> find (has_id i) ds' = Some d \<and> timeout_marked d
           \<and> trace s' \<noteq> [] \<and> last (trace s') = Set_updated_data c'"
proof -
  let ?I = "\<lambda>u::poll_state. \<exists>c' ds'. data u = Some c' \<and> directives c' = Some ds'
                \<and> other_keys c' = other_keys c \<and> length ds' = length ds
                \<and> list_ex (has_id i) ds'"
  have step: "\<And>u info. ?I u \<Longrightarrow> stage_reply w (fetched u) = Inr info \<Longrightarrow>
                 \<not> terminal_stage info \<Longrightarrow> ?I (poll_turn w i info u)"
  proof -
    fix u info assume "?I u"
    then obtain c' ds' where u: "data u = Some c'" "directives c' = Some ds'"
      "other_keys c' = other_keys c" "length ds' = length ds" "list_ex (has_id i) ds'"
      by blast
    have "data (poll_turn w i info u) =
            Some (c'\<lparr>directives := Some (map (\<lambda>d. if has_id i d then updated_directive info d else d) ds')\<rparr>)"
      using u by (simp add: data_poll_turn merge_stage_present async_set_updated_data_def)
    with u show "?I (poll_turn w i info u)"
      by (simp add: list_ex_map_updated)
  qed
  have init: "?I t" using pr by simp
  from poll_loop_all_pending [of w ?I i t start_time, OF ap step init]
  obtain s0 where s0: "?I s0" "380000 \<le> now s0 - start_time" "now t \<le> now s0"
    "poll_loop w i start_time t = (Inr None, timed_out i s0)"
    by blast
  from s0(1) obtain c0 ds0 where c0: "data s0 = Some c0" "directives c0 = Some ds0"
      "other_keys c0 = other_keys c" "length ds0 = length ds" "list_ex (has_id i) ds0"
    by blast
  let ?c' = "c0\<lparr>directives := Some (mark_first i ds0)\<rparr>"
  have to: "timed_out i s0 = async_set_updated_data ?c' s0"
    using c0(1,2,5) by (rule timed_out_present)
  from mark_first_found [OF c0(5)] obtain d where
    d: "length (mark_first i ds0) = length ds0" "find (has_id i) (mark_first i ds0) = Some d"
       "timeout_marked d"
    by blast
  show ?thesis
    using s0(2,3,4) to c0(3,4) d
    by (intro exI [of _ "timed_out i s0"] exI [of _ ?c'] exI [of _ "mark_first i ds0"] exI [of _ d])
       (simp add: async_set_updated_data_def)
qed

lemma poll_present_snoc:
  assumes ap: "\<And>k. \<exists>info. stage_reply w k = Inr info \<and> \<not> terminal_stage info"
    and pr: "data t = Some c" "directives c = Some (ds @ [d0])" "\<not> list_ex (has_id i) ds"
      "has_id i d0" "py_get d0 ''discovery'' = JBool False"
  shows "\<exists>s' c' d. poll_loop w i start_time t = (Inr None, s')
           \<and> data s' = Some c' \<and> directives c' = Some (ds @ [d])
           \<and> has_id i d \<and> py_get d ''discovery'' = JBool False"
proof -
  let ?I = "\<lambda>u::poll_state. \<exists>c' d. data u = Some c' \<and> directives c' = Some (ds @ [d])
                \<and> has_id i d \<and> py_get d ''discovery'' = JBool False"
  have step: "\<And>u info. ?I u \<Longrightarrow> stage_reply w (fetched u) = Inr info \<Longrightarrow>
                 \<not> terminal_stage info \<Longrightarrow> ?I (poll_turn w i info u)"
  proof -
    fix u info assume "?I u"
    then obtain c' d where u: "data u = Some c'" "directives c' = Some (ds @ [d])"
      "has_id i d" "py_get d ''discovery'' = JBool False"
      by blast
    have "data (poll_turn w i info u) =
            Some (c'\<lparr>directives := Some (ds @ [updated_directive info d])\<rparr>)"
      using u pr(3)
      by (simp add: data_poll_turn merge_stage_present async_set_updated_data_def map_not_found)
    with u show "?I (poll_turn w i info u)"
      by (simp add: has_id_updated_directive discovery_updated_directive)
  qed
  have init: "?I t" using pr by simp
  from poll_loop_all_pending [of w ?I i t start_time, OF ap step init]
  obtain s0 where s0: "?I s0" "poll_loop w i start_time t = (Inr None, timed_out i s0)"
    by blast
  from s0(1) obtain c0 d where c0: "data s0 = Some c0" "directives c0 = Some (ds @ [d])"
      "has_id i d" "py_get d ''discovery'' = JBool False"
    by blast
  have ex: "list_ex (has_id i) (ds @ [d])" using c0(3) by simp
  have to: "timed_out i s0 =
              async_set_updated_data (c0\<lparr>directives := Some (ds @ [mark_failed d])\<rparr>) s0"
    using timed_out_present [OF c0(1,2) ex] pr(3) c0(3) by (simp add: mark_first_snoc)
  show ?thesis
    using s0(2) to c0(3,4)
    by (intro exI [of _ "timed_out i s0"] exI [of _ "c0\<lparr>directives := Some (ds @ [mark_failed d])\<rparr>"]
          exI [of _ "mark_failed d"])
       (simp add: async_set_updated_data_def discovery_mark_failed has_id_mark_failed)
qed


lemma pending_world_all_pending:
  "\<exists>info. stage_reply pending_world k = Inr info \<and> \<not> terminal_stage info"
  by (simp add: pending_world_def terminal_stage_def py_get_def)

theorem timeout_without_collection_counterexample:
  "fst (async_poll_directive pending_world ''d1'' no_collection_start) = Inr None
   \<and> data (snd (async_poll_directive pending_world ''d1'' no_collection_start)) =
       Some \<lparr>directives = None, other_keys = []\<rparr>
   \<and> snapshots (trace (snd (async_poll_directive pending_world ''d1'' no_collection_start))) = []"
proof -
  have ab: "data no_collection_start = None
            \<or> (\<exists>c. data no_collection_start = Some c \<and> directives c = None)"
    by (simp add: no_collection_start_def)
  from poll_absent [of pending_world no_collection_start "''d1''", OF pending_world_all_pending ab]
  show ?thesis by (auto simp: no_collection_start_def)
qed

text \<open>
  C1, as amended. When every stage fetch returns a stage that is not terminal, the poll
  returns \<^verbatim>\<open>None\<close> after at least 380 seconds on the clock. When the coordinator's data
  holds a directive collection, the collection then holds an entry with the directive's
  id that reads \<^verbatim>\<open>creation_stage = failed\<close>, the timeout message and
  \<^verbatim>\<open>status = error\<close>, and the data with this collection is the last snapshot published:
  an entry that was there keeps its place, and when none was there the entry that the first
  turn of the loop synthesized stands at the end of the collection, marked by the timeout.
  When the coordinator has no data, or data without a collection, the poll changes and
  publishes nothing.
\<close>

theorem poll_times_out:
  assumes "\<forall>k. \<exists>info. stage_reply w k = Inr info \<and> \<not> terminal_stage info"
  shows "\<exists>s'. async_poll_directive w i s = (Inr None, s') \<and> 380000 \<le> now s' - now s
     \<and> (data s = None \<or> (\<exists>c. data s = Some c \<and> directives c = None) \<longrightarrow>
          data s' = data s \<and> snapshots (trace s') = snapshots (trace s))
     \<and> (\<forall>c ds. data s = Some c \<and> directives c = Some ds \<longrightarrow>
          (\<exists>c' ds' d. data s' = Some c' \<and> directives c' = Some ds'
             \<and> other_keys c' = other_keys c
             \<and> find (has_id i) ds' = Some d \<and> timeout_marked d
             \<and> trace s' \<noteq> [] \<and> last (trace s') = Set_updated_data c'
             \<and> (list_ex (has_id i) ds \<longrightarrow> length ds' = length ds)
             \<and> (\<not> list_ex (has_id i) ds \<longrightarrow>
                  ds' = ds @ [d] \<and> py_get d ''discovery'' = JBool False)))"
proof -
  from assms have ap: "\<And>k. \<exists>info. stage_reply w k = Inr info \<and> \<not> terminal_stage info"
    by blast
  show ?thesis
  proof (cases "data s = None \<or> (\<exists>c. data s = Some c \<and> directives c = None)")
    case True
    from poll_absent [of w s i, OF ap True] obtain s' where
      "async_poll_directive w i s = (Inr None, s')" "380000 \<le> now s' - now s"
      "data s' = data s" "snapshots (trace s') = snapshots (trace s)"
      by blast
    with True show ?thesis by (intro exI [of _ s']) auto
  next
    case False
    then obtain c ds where pr: "data s = Some c" "directives c = Some ds"
      by (cases "data s") auto
    from ap obtain info where r: "stage_reply w (fetched s) = Inr info" and n: "\<not> terminal_stage info"
      by blast
    let ?t = "poll_turn w i info s"
    let ?X = "if list_ex (has_id i) ds
              then map (\<lambda>d. if has_id i d then updated_directive info d else d) ds
              else ds @ [new_directive i info]"
    let ?ct = "c\<lparr>directives := Some ?X\<rparr>"
    have e: "async_poll_directive w i s = poll_loop w i (now s) ?t"
      unfolding async_poll_directive_def using r n by (intro poll_loop_nonterminal) simp_all
    have dt: "data ?t = Some ?ct"
      using pr by (simp add: data_poll_turn merge_stage_present async_set_updated_data_def)
    have dx: "directives ?ct = Some ?X" by simp
    have ex: "list_ex (has_id i) ?X"
      by (simp add: list_ex_map_updated has_id_new_directive)
    from poll_present_found [of w ?t ?ct ?X i "now s", OF ap dt dx ex]
    obtain s' c' ds' d where f: "poll_loop w i (now s) ?t = (Inr None, s')"
      "380000 \<le> now s' - now s" "data s' = Some c'" "directives c' = Some ds'"
      "other_keys c' = other_keys ?ct" "length ds' = length ?X"
      "find (has_id i) ds' = Some d" "timeout_marked d"
      "trace s' \<noteq> []" "last (trace s') = Set_updated_data c'"
      by blast
    have len: "list_ex (has_id i) ds \<longrightarrow> length ds' = length ds"
      using f(6) by simp
    have snoc: "\<not> list_ex (has_id i) ds \<longrightarrow> ds' = ds @ [d] \<and> py_get d ''discovery'' = JBool False"
    proof
      assume nf: "\<not> list_ex (has_id i) ds"
      then have dx': "directives ?ct = Some (ds @ [new_directive i info])" by simp
      from poll_present_snoc [of w ?t ?ct ds "new_directive i info" i "now s", OF ap dt dx' nf
          has_id_new_directive new_directive_fields(5)]
      obtain s2 c2 d2 where g: "poll_loop w i (now s) ?t = (Inr None, s2)"
        "data s2 = Some c2" "directives c2 = Some (ds @ [d2])" "has_id i d2"
        "py_get d2 ''discovery'' = JBool False"
        by blast
      from f(1) g(1) have "s2 = s'" by simp
      with g(2,3) f(3,4) have ds': "ds' = ds @ [d2]" by simp
      from nf g(4) have "find (has_id i) (ds @ [d2]) = Some d2" by (rule find_snoc)
      with ds' f(7) have "d = d2" by simp
      with ds' g(5) show "ds' = ds @ [d] \<and> py_get d ''discovery'' = JBool False" by simp
    qed
    have pres: "\<forall>c0 ds0. data s = Some c0 \<and> directives c0 = Some ds0 \<longrightarrow>
          (\<exists>c' ds' d. data s' = Some c' \<and> directives c' = Some ds'
             \<and> other_keys c' = other_keys c0
             \<and> find (has_id i) ds' = Some d \<and> timeout_marked d
             \<and> trace s' \<noteq> [] \<and> last (trace s') = Set_updated_data c'
             \<and> (list_ex (has_id i) ds0 \<longrightarrow> length ds' = length ds0)
             \<and> (\<not> list_ex (has_id i) ds0 \<longrightarrow>
                  ds' = ds0 @ [d] \<and> py_get d ''discovery'' = JBool False))"
    proof (intro allI impI)
      fix c0 ds0 assume "data s = Some c0 \<and> directives c0 = Some ds0"
      with pr have eq: "c0 = c" "ds0 = ds" by simp_all
      show "\<exists>c' ds' d. data s' = Some c' \<and> directives c' = Some ds'
             \<and> other_keys c' = other_keys c0
             \<and> find (has_id i) ds' = Some d \<and> timeout_marked d
             \<and> trace s' \<noteq> [] \<and> last (trace s') = Set_updated_data c'
             \<and> (list_ex (has_id i) ds0 \<longrightarrow> length ds' = length ds0)
             \<and> (\<not> list_ex (has_id i) ds0 \<longrightarrow>
                  ds' = ds0 @ [d] \<and> py_get d ''discovery'' = JBool False)"
        unfolding eq using f(3,4,5,7,8,9,10) len snoc
        by (intro exI [of _ c'] exI [of _ ds'] exI [of _ d]) simp
    qed
    have res: "async_poll_directive w i s = (Inr None, s')" using e f(1) by simp
    show ?thesis
      using res f(2) False pres by (intro exI [of _ s'] conjI) blast+
  qed
qed


theorem poll_times_out_witness:
  "(\<forall>k. \<exists>info. stage_reply pending_world k = Inr info \<and> \<not> terminal_stage info)
   \<and> fst (async_poll_directive pending_world ''d1'' example_start) = Inr None
   \<and> 380000 \<le> now (snd (async_poll_directive pending_world ''d1'' example_start))
   \<and> (\<exists>c' d. data (snd (async_poll_directive pending_world ''d1'' example_start)) = Some c'
         \<and> directives c' = Some [d] \<and> has_id ''d1'' d \<and> timeout_marked d
         \<and> py_get d ''discovery'' = JBool False
         \<and> last (trace (snd (async_poll_directive pending_world ''d1'' example_start))) =
             Set_updated_data c')
   \<and> (\<exists>c' ds' d. data (snd (async_poll_directive pending_world ''d1'' creating_start)) = Some c'
         \<and> directives c' = Some ds' \<and> length ds' = 2
         \<and> find (has_id ''d1'') ds' = Some d \<and> timeout_marked d)
   \<and> data (snd (async_poll_directive pending_world ''d1'' no_data_start)) = None"
proof -
  have ap: "\<forall>k. \<exists>info. stage_reply pending_world k = Inr info \<and> \<not> terminal_stage info"
    using pending_world_all_pending by blast
  let ?c0 = "\<lparr>directives = Some [], other_keys = []\<rparr>"
  let ?ds1 = "[ [(''id'', JStr ''d0''), (''status'', JStr ''active'')],
               [(''id'', JStr ''d1''), (''status'', JStr ''creating''),
                (''message'', JStr ''dim the hall'')]]"
  let ?c1 = "\<lparr>directives = Some ?ds1, other_keys = []\<rparr>"
  have h0: "data example_start = Some ?c0 \<and> directives ?c0 = Some []"
    by (simp add: example_start_def)
  have h1: "data creating_start = Some ?c1 \<and> directives ?c1 = Some ?ds1"
    by (simp add: creating_start_def)
  have f1: "list_ex (has_id ''d1'') ?ds1" by (simp add: has_id_def py_get_def)
  have hn: "data no_data_start = None \<or> (\<exists>c. data no_data_start = Some c \<and> directives c = None)"
    by (simp add: no_data_start_def)
  from poll_times_out [OF ap, of "''d1''" example_start] obtain s0 where
    a0: "async_poll_directive pending_world ''d1'' example_start = (Inr None, s0)"
    and t0: "380000 \<le> now s0 - now example_start"
    and p0: "\<forall>c ds. data example_start = Some c \<and> directives c = Some ds \<longrightarrow>
          (\<exists>c' ds' d. data s0 = Some c' \<and> directives c' = Some ds'
             \<and> other_keys c' = other_keys c
             \<and> find (has_id ''d1'') ds' = Some d \<and> timeout_marked d
             \<and> trace s0 \<noteq> [] \<and> last (trace s0) = Set_updated_data c'
             \<and> (list_ex (has_id ''d1'') ds \<longrightarrow> length ds' = length ds)
             \<and> (\<not> list_ex (has_id ''d1'') ds \<longrightarrow>
                  ds' = ds @ [d] \<and> py_get d ''discovery'' = JBool False))"
    by blast
  from p0 h0 obtain c' ds' d where
    q0: "data s0 = Some c'" "directives c' = Some ds'" "find (has_id ''d1'') ds' = Some d"
      "timeout_marked d" "last (trace s0) = Set_updated_data c'"
      "\<not> list_ex (has_id ''d1'') [] \<longrightarrow> ds' = [] @ [d] \<and> py_get d ''discovery'' = JBool False"
    by blast
  from q0(6) have q1: "ds' = [d]" "py_get d ''discovery'' = JBool False" by simp_all
  from q0(3) q1(1) have q2: "has_id ''d1'' d" by (simp split: if_splits)
  have w0: "\<exists>c' d. data s0 = Some c' \<and> directives c' = Some [d] \<and> has_id ''d1'' d
              \<and> timeout_marked d \<and> py_get d ''discovery'' = JBool False
              \<and> last (trace s0) = Set_updated_data c'"
    using q0(1,2,4,5) q1 q2 by blast
  from poll_times_out [OF ap, of "''d1''" creating_start] obtain s1 where
    a1: "async_poll_directive pending_world ''d1'' creating_start = (Inr None, s1)"
    and p1: "\<forall>c ds. data creating_start = Some c \<and> directives c = Some ds \<longrightarrow>
          (\<exists>c' ds' d. data s1 = Some c' \<and> directives c' = Some ds'
             \<and> other_keys c' = other_keys c
             \<and> find (has_id ''d1'') ds' = Some d \<and> timeout_marked d
             \<and> trace s1 \<noteq> [] \<and> last (trace s1) = Set_updated_data c'
             \<and> (list_ex (has_id ''d1'') ds \<longrightarrow> length ds' = length ds)
             \<and> (\<not> list_ex (has_id ''d1'') ds \<longrightarrow>
                  ds' = ds @ [d] \<and> py_get d ''discovery'' = JBool False))"
    by blast
  from p1 h1 obtain c1 ds1 d1 where
    r1: "data s1 = Some c1" "directives c1 = Some ds1" "find (has_id ''d1'') ds1 = Some d1"
      "timeout_marked d1" "list_ex (has_id ''d1'') ?ds1 \<longrightarrow> length ds1 = length ?ds1"
    by blast
  from r1(5) f1 have "length ds1 = length ?ds1" by blast
  then have r2: "length ds1 = 2" by simp
  have w1: "\<exists>c' ds' d. data s1 = Some c' \<and> directives c' = Some ds' \<and> length ds' = 2
         \<and> find (has_id ''d1'') ds' = Some d \<and> timeout_marked d"
    using r1(1,2,3,4) r2 by blast
  from poll_times_out [OF ap, of "''d1''" no_data_start] hn
  have wn: "data (snd (async_poll_directive pending_world ''d1'' no_data_start)) = None"
    by (auto simp: no_data_start_def)
  from t0 have t0': "380000 \<le> now s0" by simp
  show ?thesis using ap a0 t0' w0 a1 w1 wn by simp
qed

subsection \<open>Encryption helper\<close>

lemma length_pkcs7_pad:
  "length (pkcs7_pad bs) = length bs + (16 - length bs mod 16)"
  by (simp add: pkcs7_pad_def Let_def)

lemma pkcs7_pad_mod: "length (pkcs7_pad bs) mod 16 = 0"
proof -
  have "(length bs + (16 - length bs mod 16)) mod 16 = 0"
    by presburger
  then show ?thesis by (simp add: length_pkcs7_pad)
qed


















lemma encrypt_bytes_ok:
  assumes k: "decode_key P key = Inr kb" and c: "cipher_ok kb iv"
  shows "encrypt_bytes P iv X key =
           Inr (iv @ concat (cbc_encrypt_blocks (aes_encrypt_block P kb) iv
                               (blocks16 (pkcs7_pad (json_dumps P (json_document X))))),
                concat (cbc_encrypt_blocks (aes_encrypt_block P kb) iv
                          (blocks16 (pkcs7_pad (json_dumps P (json_document X))))))"
  using k c by (simp add: encrypt_bytes_def Let_def pkcs7_pad_mod)






lemma toy_key_decodes:
  "b64decode toy_primitives toy_key = Some (replicate 32 107)"
  by (simp add: toy_primitives_def toy_key_def)





subsection \<open>Webhook\<close>

text \<open>
  C9. With the config entry at hand, a request whose \<^verbatim>\<open>X-Webhook-Secret\<close> header is
  missing or differs from the persisted secret gets status 401, and the handler has done
  nothing else by then: the body is not read, nothing is decrypted, no service is looked
  up or called, whatever the body holds.
\<close>

theorem webhook_rejects_wrong_secret:
  assumes "header_secret req = None \<or> header_secret req \<noteq> conf_webhook_secret config"
  shows "async_handle_webhook P pf (Some config) req = (Response 401, [])"
  using assms by (auto simp: async_handle_webhook_def Let_def)

theorem webhook_rejects_wrong_secret_witness:
  "header_secret forged_request \<noteq> conf_webhook_secret example_config
   \<and> async_handle_webhook toy_primitives open_platform (Some example_config) forged_request
       = (Response 401, [])"
proof -
  have h: "header_secret forged_request \<noteq> conf_webhook_secret example_config"
    by (simp add: forged_request_def example_config_def)
  then have "header_secret forged_request = None
             \<or> header_secret forged_request \<noteq> conf_webhook_secret example_config" by simp
  from webhook_rejects_wrong_secret [OF this, of toy_primitives open_platform] h
  show ?thesis by simp
qed

lemma py_get_delete: "k' \<noteq> k \<Longrightarrow> py_get (AList.delete k d) k' = py_get d k'"
  by (simp add: py_get_def delete_conv')

lemma webhook_ignores_service_call:
  "async_handle_webhook P pf entry (req\<lparr>body := Body_json (JObj rd)\<rparr>) =
   async_handle_webhook P pf entry (req\<lparr>body := Body_json (JObj (AList.delete ''service_call'' rd))\<rparr>)"
  by (simp add: async_handle_webhook_def Let_def should_encrypt_def py_get_delete
      split: option.splits)

lemma webhook_requires_encrypted_payload:
  assumes "conf_webhook_secret config = Some secret" and "secret \<noteq> []"
    and "header_secret req = Some secret"
    and "conf_encryption_key config = Some key" and "key \<noteq> []"
    and "body req = Body_json (JObj rd)" and "map_of rd ''encrypted_payload'' = None"
  shows "async_handle_webhook P pf (Some config) req = (Response 400, [Request_read])"
  using assms by (simp add: async_handle_webhook_def Let_def should_encrypt_def py_get_def)

lemma single_publish_flag:
  assumes "encrypt_data P iv (entities_data_update entity_id st) (encryption_key d) = Inr enc"
  shows "\<exists>rest. events (async_update_remote_state P iv h d entity_id st s) =
           events s @ Post_update_entity_state
             (JObj [(''entities'', JObj [(''data'', JStr enc), (''encrypted'', JBool False)])]) # rest"
  using assms
  by (auto simp: async_update_remote_state_def should_encrypt_def Let_def emit_def feed_scenarios_def
      split: post_reply.splits option.splits)

lemma toy_encrypt_succeeds: "\<exists>enc. encrypt_data toy_primitives toy_iv X (Some toy_key) = Inr enc"
proof -
  have k: "decode_key toy_primitives (Some toy_key) = Inr (replicate 32 107)"
    by (simp add: decode_key_def toy_key_decodes)
  have c: "cipher_ok (replicate 32 107) toy_iv" by (simp add: cipher_ok_def toy_iv_def)
  from encrypt_bytes_ok [OF k c, of X] show ?thesis by (simp add: encrypt_data_def)
qed

text \<open>
  C10. \<^verbatim>\<open>should_encrypt\<close> is true for every subscription type. So the webhook handler
  never reads the \<^verbatim>\<open>service_call\<close> key of the body: the response and the effects are
  those of the body without that key; an authenticated JSON object without
  \<^verbatim>\<open>encrypted_payload\<close> is answered 400 once the body has been read, on an
  installation that has an encryption key. And the single-entity publish posts the
  encrypted text as \<^verbatim>\<open>data\<close> next to \<^verbatim>\<open>encrypted = false\<close>.
\<close>

theorem encryption_is_unconditional:
  "should_encrypt tier
   \<and> async_handle_webhook P pf entry (req\<lparr>body := Body_json (JObj rd)\<rparr>) =
       async_handle_webhook P pf entry
         (req\<lparr>body := Body_json (JObj (AList.delete ''service_call'' rd))\<rparr>)
   \<and> (conf_webhook_secret config = Some secret \<and> secret \<noteq> []
        \<and> header_secret req = Some secret
        \<and> conf_encryption_key config = Some key \<and> key \<noteq> []
        \<and> body req = Body_json (JObj rd) \<and> map_of rd ''encrypted_payload'' = None \<longrightarrow>
        async_handle_webhook P pf (Some config) req = (Response 400, [Request_read]))
   \<and> (encrypt_data P iv (entities_data_update entity_id st) (encryption_key d) = Inr enc \<longrightarrow>
        (\<exists>rest. events (async_update_remote_state P iv h d entity_id st s) =
           events s @ Post_update_entity_state
             (JObj [(''entities'', JObj [(''data'', JStr enc), (''encrypted'', JBool False)])]) # rest))"
  using webhook_ignores_service_call [where P = P and pf = pf and entry = entry and req = req and rd = rd]
    webhook_requires_encrypted_payload [where config = config and secret = secret and req = req
      and key = key and rd = rd and P = P and pf = pf]
    single_publish_flag [where P = P and iv = iv and entity_id = entity_id and st = st and d = d
      and enc = enc and h = h and s = s]
  by (simp add: should_encrypt_def)

theorem encryption_is_unconditional_witness:
  "should_encrypt (Some ''basic'')
   \<and> async_handle_webhook toy_primitives open_platform (Some example_config) plain_request =
       (Response 400, [Request_read])
   \<and> (\<exists>enc rest.
         encrypt_data toy_primitives toy_iv (entities_data_update ''light.kitchen'' kitchen_state)
           (encryption_key example_direktive) = Inr enc
         \<and> events (async_update_remote_state toy_primitives toy_iv example_host example_direktive
                      ''light.kitchen'' kitchen_state fresh_publisher) =
             Post_update_entity_state
               (JObj [(''entities'', JObj [(''data'', JStr enc), (''encrypted'', JBool False)])]) # rest)"
proof -
  let ?rd = "[(''service_call'',
                JObj [(''domain'', JStr ''light''), (''service'', JStr ''turn_on''),
                      (''entity_id'', JStr ''light.kitchen'')])]"
  have h: "conf_webhook_secret example_config = Some ''s3cret'' \<and> ''s3cret'' \<noteq> []
        \<and> header_secret plain_request = Some ''s3cret''
        \<and> conf_encryption_key example_config = Some toy_key \<and> toy_key \<noteq> []
        \<and> body plain_request = Body_json (JObj ?rd) \<and> map_of ?rd ''encrypted_payload'' = None"
    by (simp add: example_config_def plain_request_def toy_key_def)
  have kd: "encryption_key example_direktive = Some toy_key"
    by (simp add: example_direktive_def direktive_init_def)
  from toy_encrypt_succeeds [of "entities_data_update ''light.kitchen'' kitchen_state"] kd
  obtain enc where e: "encrypt_data toy_primitives toy_iv
        (entities_data_update ''light.kitchen'' kitchen_state) (encryption_key example_direktive) = Inr enc"
    by auto
  note t = encryption_is_unconditional [where tier = "Some ''basic''" and P = toy_primitives
      and pf = open_platform and entry = "Some example_config" and req = plain_request
      and rd = ?rd and config = example_config and secret = "''s3cret''" and key = toy_key
      and iv = toy_iv and entity_id = "''light.kitchen''" and st = kitchen_state
      and d = example_direktive and enc = enc and h = example_host and s = fresh_publisher]
  from t have a: "should_encrypt (Some ''basic'')" by blast
  from t h have b: "async_handle_webhook toy_primitives open_platform (Some example_config) plain_request =
       (Response 400, [Request_read])" by blast
  from t e obtain rest where
    "events (async_update_remote_state toy_primitives toy_iv example_host example_direktive
                      ''light.kitchen'' kitchen_state fresh_publisher) =
       events fresh_publisher @ Post_update_entity_state
               (JObj [(''entities'', JObj [(''data'', JStr enc), (''encrypted'', JBool False)])]) # rest"
    by blast
  then have c: "events (async_update_remote_state toy_primitives toy_iv example_host example_direktive
                      ''light.kitchen'' kitchen_state fresh_publisher) =
       Post_update_entity_state
               (JObj [(''entities'', JObj [(''data'', JStr enc), (''encrypted'', JBool False)])]) # rest"
    by (simp add: fresh_publisher_def)
  from a b e c show ?thesis by blast
qed

subsection \<open>Initial bulk update\<close>

lemma flag_emit: "initial_bulk_update_performed (emit e s) = initial_bulk_update_performed s"
  by (simp add: emit_def)

lemma flag_feed_scenarios:
  "initial_bulk_update_performed (feed_scenarios r s) = initial_bulk_update_performed s"
  by (simp add: feed_scenarios_def flag_emit split: option.splits)

lemma events_feed_scenarios: "\<exists>rest. events (feed_scenarios r s) = events s @ rest"
  by (simp add: feed_scenarios_def emit_def split: option.splits)

lemma bulk_skips_when_performed:
  "initial_bulk_update_performed s \<Longrightarrow> send_bulk_update P iv h d s = s"
  by (simp add: send_bulk_update_def)

lemma bulk_flag_needs_200:
  assumes "\<not> initial_bulk_update_performed s"
    and "initial_bulk_update_performed (send_bulk_update P iv h d s)"
  shows "\<exists>payload response_data rest. post h = Post_reply 200 (Some response_data)
           \<and> events (send_bulk_update P iv h d s) =
               events s @ Post_update_entity_state payload # Update_entry_flag # rest"
proof -
  have ef: "entry_found h"
  proof (rule ccontr)
    assume "\<not> entry_found h"
    then have "send_bulk_update P iv h d s = s" by (simp add: send_bulk_update_def)
    with assms show False by simp
  qed
  let ?entities = "entities_data_bulk (states h) (entity_ids d)"
  let ?encrypted = "if ?entities \<noteq> [] \<and> should_encrypt (subscription_type d)
                   then (case encrypt_data P iv (JList ?entities) (encryption_key d) of
                           Inl e \<Rightarrow> Inl e
                         | Inr enc \<Rightarrow> Inr (JStr enc))
                   else Inr (JList ?entities)"
  show ?thesis
  proof (cases ?encrypted)
    case (Inl e)
    with assms ef show ?thesis by (simp add: send_bulk_update_def Let_def)
  next
    case (Inr entities_data)
    show ?thesis
    proof (cases "truthy entities_data")
      case False
      with assms ef Inr show ?thesis by (simp add: send_bulk_update_def Let_def)
    next
      case True
      show ?thesis
      proof (cases "post h")
        case Post_raises
        with assms ef Inr True show ?thesis
          by (simp add: send_bulk_update_def Let_def flag_emit)
      next
        case (Post_reply status body)
        show ?thesis
        proof (cases "status = 200 \<and> body \<noteq> None")
          case False
          with assms ef Inr True Post_reply show ?thesis
            by (auto simp: send_bulk_update_def Let_def flag_emit split: option.splits)
        next
          case ok: True
          then obtain response_data where b: "body = Some response_data" by auto
          let ?payload = "JObj [(''entities'',
                                   JObj [(''data'', entities_data),
                                         (''encrypted'', JBool (should_encrypt (subscription_type d)))]),
                                (''bulk'', JBool True),
                                (''refresh'', JBool True)]"
          let ?s2 = "emit Update_entry_flag
                       ((emit (Post_update_entity_state ?payload) s)\<lparr>initial_bulk_update_performed := True\<rparr>)"
          let ?s3 = "if coordinator_present h then emit Request_refresh ?s2 else ?s2"
          have sb: "send_bulk_update P iv h d s = feed_scenarios response_data ?s3"
            using assms(1) ef Inr True Post_reply ok b
            by (simp add: send_bulk_update_def Let_def)
          have e3: "\<exists>r0. events ?s3 = events s @ Post_update_entity_state ?payload # Update_entry_flag # r0"
            by (simp add: emit_def)
          then obtain r0 where r0: "events ?s3 = events s @ Post_update_entity_state ?payload # Update_entry_flag # r0"
            by blast
          from events_feed_scenarios [of response_data ?s3] obtain r1 where
            r1: "events (feed_scenarios response_data ?s3) = events ?s3 @ r1"
            by blast
          have "events (send_bulk_update P iv h d s) =
                  events s @ Post_update_entity_state ?payload # Update_entry_flag # (r0 @ r1)"
            by (simp only: sb r1 r0) simp
          with Post_reply ok b show ?thesis by blast
        qed
      qed
    qed
  qed
qed

lemma bulk_failure_keeps_flag:
  assumes "\<not> initial_bulk_update_performed s"
    and "post h = Post_raises \<or> (\<exists>status body. post h = Post_reply status body \<and> status \<noteq> 200)"
  shows "\<not> initial_bulk_update_performed (send_bulk_update P iv h d s)"
proof
  assume "initial_bulk_update_performed (send_bulk_update P iv h d s)"
  from bulk_flag_needs_200 [OF assms(1) this] assms(2) show False by auto
qed

lemma bulk_success_sets_flag:
  assumes "entry_found h" and "\<not> initial_bulk_update_performed s"
    and "entities_data_bulk (states h) (entity_ids d) \<noteq> []"
    and "encrypt_data P iv (JList (entities_data_bulk (states h) (entity_ids d))) (encryption_key d) = Inr enc"
    and "enc \<noteq> []"
    and "post h = Post_reply 200 (Some response_data)"
  shows "initial_bulk_update_performed (send_bulk_update P iv h d s)"
  using assms
  by (simp add: send_bulk_update_def Let_def should_encrypt_def flag_feed_scenarios flag_emit)


lemma toy_encrypt_nonempty:
  "\<exists>enc. encrypt_data toy_primitives toy_iv X (Some toy_key) = Inr enc \<and> enc \<noteq> []"
proof -
  have k: "decode_key toy_primitives (Some toy_key) = Inr (replicate 32 107)"
    by (simp add: decode_key_def toy_key_decodes)
  have c: "cipher_ok (replicate 32 107) toy_iv" by (simp add: cipher_ok_def toy_iv_def)
  from encrypt_bytes_ok [OF k c, of X] show ?thesis
    by (simp add: encrypt_data_def) (simp add: toy_primitives_def toy_iv_def)
qed

text \<open>
  C8. When \<^verbatim>\<open>initial_bulk_update_performed\<close> is already true, the initial bulk update
  returns at once: no request, no event, the state as it was. The flag goes from false to
  true only in a run whose POST returned status 200 with a body that parses, and the
  update of the entry comes after that POST; such a run, with entities to send, sets it.
  When the POST raises or returns another status, the flag stays false.
\<close>

theorem initial_bulk_update_once:
  "(initial_bulk_update_performed s \<longrightarrow> send_bulk_update P iv h d s = s)
   \<and> (\<not> initial_bulk_update_performed s
        \<and> initial_bulk_update_performed (send_bulk_update P iv h d s) \<longrightarrow>
        (\<exists>payload response_data rest. post h = Post_reply 200 (Some response_data)
           \<and> events (send_bulk_update P iv h d s) =
               events s @ Post_update_entity_state payload # Update_entry_flag # rest))
   \<and> (\<not> initial_bulk_update_performed s
        \<and> (post h = Post_raises \<or> (\<exists>status body. post h = Post_reply status body \<and> status \<noteq> 200)) \<longrightarrow>
        \<not> initial_bulk_update_performed (send_bulk_update P iv h d s))
   \<and> (entry_found h \<and> \<not> initial_bulk_update_performed s
        \<and> entities_data_bulk (states h) (entity_ids d) \<noteq> []
        \<and> encrypt_data P iv (JList (entities_data_bulk (states h) (entity_ids d))) (encryption_key d) = Inr enc
        \<and> enc \<noteq> [] \<and> post h = Post_reply 200 (Some response_data) \<longrightarrow>
        initial_bulk_update_performed (send_bulk_update P iv h d s))"
  using bulk_skips_when_performed [where s = s and P = P and iv = iv and h = h and d = d]
    bulk_flag_needs_200 [where s = s and P = P and iv = iv and h = h and d = d]
    bulk_failure_keeps_flag [where s = s and P = P and iv = iv and h = h and d = d]
    bulk_success_sets_flag [where s = s and P = P and iv = iv and h = h and d = d
      and enc = enc and response_data = response_data]
  by blast

theorem initial_bulk_update_once_witness:
  "\<not> initial_bulk_update_performed fresh_publisher
   \<and> initial_bulk_update_performed
       (send_bulk_update toy_primitives toy_iv example_host example_direktive fresh_publisher)
   \<and> send_bulk_update toy_primitives toy_iv example_host example_direktive
       (send_bulk_update toy_primitives toy_iv example_host example_direktive fresh_publisher) =
       send_bulk_update toy_primitives toy_iv example_host example_direktive fresh_publisher
   \<and> \<not> initial_bulk_update_performed
       (send_bulk_update toy_primitives toy_iv failing_host example_direktive fresh_publisher)"
proof -
  let ?s1 = "send_bulk_update toy_primitives toy_iv example_host example_direktive fresh_publisher"
  have f: "\<not> initial_bulk_update_performed fresh_publisher" by (simp add: fresh_publisher_def)
  have ids: "entity_ids example_direktive = [''light.kitchen'', ''sun.sun'']"
    by (simp add: example_direktive_def direktive_init_def)
  have ne: "entities_data_bulk (states example_host) (entity_ids example_direktive) \<noteq> []"
    by (simp add: ids example_host_def)
  have kd: "encryption_key example_direktive = Some toy_key"
    by (simp add: example_direktive_def direktive_init_def)
  from toy_encrypt_nonempty
    [of "JList (entities_data_bulk (states example_host) (entity_ids example_direktive))"]
  obtain enc where e: "encrypt_data toy_primitives toy_iv
        (JList (entities_data_bulk (states example_host) (entity_ids example_direktive)))
        (encryption_key example_direktive) = Inr enc" "enc \<noteq> []"
    unfolding kd by blast
  have hp: "entry_found example_host" "post example_host = Post_reply 200 (Some [])"
    by (simp_all add: example_host_def)
  have fp: "post failing_host = Post_raises
            \<or> (\<exists>status body. post failing_host = Post_reply status body \<and> status \<noteq> 200)"
    by (simp add: failing_host_def)
  note t1 = initial_bulk_update_once [where s = fresh_publisher and P = toy_primitives and iv = toy_iv
      and h = example_host and d = example_direktive and enc = enc and response_data = "[]"]
  from t1 hp f ne e have a: "initial_bulk_update_performed ?s1" by blast
  note t2 = initial_bulk_update_once [where s = ?s1 and P = toy_primitives and iv = toy_iv
      and h = example_host and d = example_direktive]
  from t2 a have b: "send_bulk_update toy_primitives toy_iv example_host example_direktive ?s1 = ?s1"
    by blast
  note t3 = initial_bulk_update_once [where s = fresh_publisher and P = toy_primitives and iv = toy_iv
      and h = failing_host and d = example_direktive]
  from t3 f fp have c: "\<not> initial_bulk_update_performed
       (send_bulk_update toy_primitives toy_iv failing_host example_direktive fresh_publisher)"
    by blast
  from f a b c show ?thesis by blast
qed

end
